theory Spec2Isabelle
  imports Complex_Main "HOL-Library.Char_ord" "HOL-Library.List_Lexorder"
    "HOL-Library.Multiset"
begin

section \<open>JavaScript numbers\<close>

text \<open>
  The engine of \<^verbatim>\<open>src/api/scoring-algorithm.js\<close> computes on JavaScript numbers.
  A finite double is idealised as a real number: the rounding error and the overflow of
  double arithmetic are not modelled. The special values are modelled, because the
  engine's formulas produce them from finite inputs (\<^verbatim>\<open>Math.log10\<close> of a number that
  is not positive, a division by zero, the time value of an invalid date). The sign of
  zero is not modelled. A statement that needs the absence of overflow bounds the
  magnitude of the fields in its hypothesis, and no statement gives the exact value of a
  rounded product of doubles but at examples where it is beyond doubt.
\<close>

datatype jsnum = Num real | PosInf | NegInf | NaN

fun js_neg :: "jsnum \<Rightarrow> jsnum" where
  "js_neg (Num a) = Num (- a)"
| "js_neg PosInf = NegInf"
| "js_neg NegInf = PosInf"
| "js_neg NaN = NaN"

fun js_add :: "jsnum \<Rightarrow> jsnum \<Rightarrow> jsnum" where
  "js_add NaN _ = NaN"
| "js_add _ NaN = NaN"
| "js_add (Num a) (Num b) = Num (a + b)"
| "js_add (Num a) PosInf = PosInf"
| "js_add (Num a) NegInf = NegInf"
| "js_add PosInf (Num b) = PosInf"
| "js_add NegInf (Num b) = NegInf"
| "js_add PosInf PosInf = PosInf"
| "js_add NegInf NegInf = NegInf"
| "js_add PosInf NegInf = NaN"
| "js_add NegInf PosInf = NaN"

definition js_sub :: "jsnum \<Rightarrow> jsnum \<Rightarrow> jsnum" where
  "js_sub a b = js_add a (js_neg b)"

text \<open>The sign of a number that is not NaN: \<open>-1\<close>, \<open>0\<close> or \<open>1\<close>.\<close>

fun js_sign :: "jsnum \<Rightarrow> int" where
  "js_sign (Num a) = (if a < 0 then - 1 else if a = 0 then 0 else 1)"
| "js_sign PosInf = 1"
| "js_sign NegInf = - 1"
| "js_sign NaN = 0"

fun js_mul :: "jsnum \<Rightarrow> jsnum \<Rightarrow> jsnum" where
  "js_mul NaN _ = NaN"
| "js_mul _ NaN = NaN"
| "js_mul (Num a) (Num b) = Num (a * b)"
| "js_mul a b =
     (if js_sign a * js_sign b = 0 then NaN
      else if js_sign a * js_sign b = 1 then PosInf else NegInf)"

text \<open>Division; a zero divisor is the positive zero.\<close>

fun js_div :: "jsnum \<Rightarrow> jsnum \<Rightarrow> jsnum" where
  "js_div NaN _ = NaN"
| "js_div _ NaN = NaN"
| "js_div (Num a) (Num b) =
     (if b \<noteq> 0 then Num (a / b)
      else if 0 < a then PosInf else if a < 0 then NegInf else NaN)"
| "js_div (Num a) PosInf = Num 0"
| "js_div (Num a) NegInf = Num 0"
| "js_div PosInf (Num b) = (if b < 0 then NegInf else PosInf)"
| "js_div NegInf (Num b) = (if b < 0 then PosInf else NegInf)"
| "js_div _ _ = NaN"

text \<open>\<^verbatim>\<open>Math.min\<close> and \<^verbatim>\<open>Math.max\<close> of two arguments: NaN if either is NaN.\<close>

fun js_min :: "jsnum \<Rightarrow> jsnum \<Rightarrow> jsnum" where
  "js_min NaN _ = NaN"
| "js_min _ NaN = NaN"
| "js_min NegInf _ = NegInf"
| "js_min _ NegInf = NegInf"
| "js_min PosInf b = b"
| "js_min a PosInf = a"
| "js_min (Num a) (Num b) = Num (min a b)"

fun js_max :: "jsnum \<Rightarrow> jsnum \<Rightarrow> jsnum" where
  "js_max NaN _ = NaN"
| "js_max _ NaN = NaN"
| "js_max PosInf _ = PosInf"
| "js_max _ PosInf = PosInf"
| "js_max NegInf b = b"
| "js_max a NegInf = a"
| "js_max (Num a) (Num b) = Num (max a b)"

text \<open>\<^verbatim>\<open>Math.round\<close>: the nearest integer, a half rounded towards \<open>+\<infinity>\<close>.\<close>

definition round_half_up :: "real \<Rightarrow> int" where
  "round_half_up x = \<lfloor>x + 1 / 2\<rfloor>"

fun js_round :: "jsnum \<Rightarrow> jsnum" where
  "js_round (Num a) = Num (of_int (round_half_up a))"
| "js_round v = v"

fun js_log10 :: "jsnum \<Rightarrow> jsnum" where
  "js_log10 (Num a) = (if a < 0 then NaN else if a = 0 then NegInf else Num (log 10 a))"
| "js_log10 PosInf = PosInf"
| "js_log10 NegInf = NaN"
| "js_log10 NaN = NaN"

text \<open>The comparisons \<^verbatim>\<open>===\<close> on numbers, \<^verbatim>\<open><\<close> and \<^verbatim>\<open>>\<close>: false whenever an operand is NaN.\<close>

fun js_lt :: "jsnum \<Rightarrow> jsnum \<Rightarrow> bool" where
  "js_lt NaN _ = False"
| "js_lt _ NaN = False"
| "js_lt (Num a) (Num b) = (a < b)"
| "js_lt NegInf NegInf = False"
| "js_lt NegInf _ = True"
| "js_lt PosInf _ = False"
| "js_lt (Num a) PosInf = True"
| "js_lt (Num a) NegInf = False"

definition js_gt :: "jsnum \<Rightarrow> jsnum \<Rightarrow> bool" where
  "js_gt a b = js_lt b a"

definition js_eq :: "jsnum \<Rightarrow> jsnum \<Rightarrow> bool" where
  "js_eq a b = (a \<noteq> NaN \<and> a = b)"

definition js_ge :: "jsnum \<Rightarrow> jsnum \<Rightarrow> bool" where
  "js_ge a b = (js_lt b a \<or> js_eq a b)"

section \<open>Prompt scoring engine\<close>

text \<open>
  The snapshot of one prompt read by \<^verbatim>\<open>PromptScoringEngine\<close>. Every numeric field is a
  finite number; a field that is missing in the JavaScript object is read with its
  destructuring default \<open>0\<close>, so it is the value \<open>0\<close> here. \<open>lastUsedDaysAgo\<close> defaults
  to \<^verbatim>\<open>null\<close>, which is \<open>None\<close>.
\<close>

record PromptSignal =
  averageRating :: real
  ratingCount :: real
  usageCount :: real
  daysSinceCreated :: real
  lastUsedDaysAgo :: "real option"
  favoriteCount :: real
  shareCount :: real
  viewCount :: real
  commentCount :: real

text \<open>The constructor's tables \<^verbatim>\<open>this.weights\<close> and \<^verbatim>\<open>this.maxScores\<close>.\<close>

definition weights_rating :: real where "weights_rating = 4 / 10"
definition weights_usage :: real where "weights_usage = 3 / 10"
definition weights_recency :: real where "weights_recency = 2 / 10"
definition weights_engagement :: real where "weights_engagement = 1 / 10"

definition maxScores_rating :: real where "maxScores_rating = 100"
definition maxScores_usage :: real where "maxScores_usage = 50"
definition maxScores_recency :: real where "maxScores_recency = 20"
definition maxScores_engagement :: real where "maxScores_engagement = 30"

definition getConfidenceMultiplier :: "real \<Rightarrow> real" where
  "getConfidenceMultiplier rc =
     (if rc \<ge> 50 then 1
      else if rc \<ge> 25 then 95 / 100
      else if rc \<ge> 10 then 9 / 10
      else if rc \<ge> 5 then 8 / 10
      else if rc \<ge> 3 then 7 / 10
      else 6 / 10)"

definition calculateRatingScore :: "PromptSignal \<Rightarrow> int" where
  "calculateRatingScore p =
     (if ratingCount p = 0 then 0
      else let score = ((averageRating p - 1) / 4) * maxScores_rating;
               confidenceMultiplier = getConfidenceMultiplier (ratingCount p)
           in round_half_up (score * confidenceMultiplier))"

definition calculateUsageScore :: "PromptSignal \<Rightarrow> jsnum" where
  "calculateUsageScore p =
     (if usageCount p = 0 then Num 0
      else let usageVelocity =
                 (if daysSinceCreated p > 0 then usageCount p / daysSinceCreated p
                  else usageCount p);
               baseScore = js_mul (js_log10 (Num (usageCount p + 1))) (Num 15);
               velocityBonus = min (usageVelocity * 5) 20
           in js_round (js_min (js_add baseScore (Num velocityBonus)) (Num maxScores_usage)))"

definition calculateRecencyScore :: "PromptSignal \<Rightarrow> int" where
  "calculateRecencyScore p =
     (let recencyScore = max 0 (maxScores_recency - daysSinceCreated p * (1 / 2));
          recencyScore' =
            (case lastUsedDaysAgo p of
               None \<Rightarrow> recencyScore
             | Some l \<Rightarrow> if l < 7 then recencyScore + max 0 (10 - l) else recencyScore)
      in round_half_up (min recencyScore' maxScores_recency))"

definition calculateEngagementScore :: "PromptSignal \<Rightarrow> int" where
  "calculateEngagementScore p =
     (let engagementScore =
            favoriteCount p * 3 + shareCount p * 2 + commentCount p * (3 / 2)
            + viewCount p * (1 / 10)
      in round_half_up (min engagementScore maxScores_engagement))"

text \<open>The local \<^verbatim>\<open>totalScore\<close> of \<^verbatim>\<open>calculateScore\<close>: the rounded weighted sum, before the clamp.\<close>

definition totalScore :: "PromptSignal \<Rightarrow> jsnum" where
  "totalScore p =
     (let ratingScore = calculateRatingScore p;
          usageScore = calculateUsageScore p;
          recencyScore = calculateRecencyScore p;
          engagementScore = calculateEngagementScore p
      in js_round
           (js_add
              (js_add
                 (js_add (Num (of_int ratingScore * weights_rating))
                         (js_mul usageScore (Num weights_usage)))
                 (Num (of_int recencyScore * weights_recency)))
              (Num (of_int engagementScore * weights_engagement))))"

definition calculateScore :: "PromptSignal \<Rightarrow> jsnum" where
  "calculateScore p = js_max (Num 0) (js_min (Num 200) (totalScore p))"

text \<open>
  \<^verbatim>\<open>getScoreBreakdown\<close>: each component's score, weight and rounded contribution.
\<close>

record ScoreComponent =
  score :: jsnum
  weight :: real
  contribution :: jsnum

record ScoreBreakdown =
  rating :: ScoreComponent
  usage :: ScoreComponent
  recency :: ScoreComponent
  engagement :: ScoreComponent

definition getScoreBreakdown :: "PromptSignal \<Rightarrow> ScoreBreakdown" where
  "getScoreBreakdown p =
     (let ratingScore = Num (of_int (calculateRatingScore p));
          usageScore = calculateUsageScore p;
          recencyScore = Num (of_int (calculateRecencyScore p));
          engagementScore = Num (of_int (calculateEngagementScore p))
      in \<lparr>rating = \<lparr>score = ratingScore, weight = weights_rating,
                     contribution = js_round (js_mul ratingScore (Num weights_rating))\<rparr>,
          usage = \<lparr>score = usageScore, weight = weights_usage,
                    contribution = js_round (js_mul usageScore (Num weights_usage))\<rparr>,
          recency = \<lparr>score = recencyScore, weight = weights_recency,
                      contribution = js_round (js_mul recencyScore (Num weights_recency))\<rparr>,
          engagement = \<lparr>score = engagementScore, weight = weights_engagement,
                         contribution =
                           js_round (js_mul engagementScore (Num weights_engagement))\<rparr>\<rparr>)"

text \<open>The inputs the specification calls non-negative: every numeric field is at least 0
  and the average rating is at most 5.\<close>

definition nonneg_fields :: "PromptSignal \<Rightarrow> bool" where
  "nonneg_fields p \<longleftrightarrow>
     0 \<le> averageRating p \<and> averageRating p \<le> 5 \<and> 0 \<le> ratingCount p
     \<and> 0 \<le> usageCount p \<and> 0 \<le> daysSinceCreated p
     \<and> (case lastUsedDaysAgo p of None \<Rightarrow> True | Some l \<Rightarrow> 0 \<le> l)
     \<and> 0 \<le> favoriteCount p \<and> 0 \<le> shareCount p \<and> 0 \<le> viewCount p
     \<and> 0 \<le> commentCount p"

section \<open>Dates and the clock\<close>

text \<open>
  The wall clock (\<^verbatim>\<open>new Date()\<close>, \<^verbatim>\<open>Date.now()\<close>) is a parameter \<open>now\<close> of every
  operation that reads it: the number of milliseconds since the epoch. One call is
  taken to read one value of the clock, though the source reads it again at every grant
  and at every comparison of the trending sort. \<^verbatim>\<open>toISOString\<close> is injective on time
  values, so the field \<open>earnedAt\<close> holds the reading itself.

  \<^verbatim>\<open>new Date(string)\<close> is a parameter \<open>parse\<close> of every operation that calls it: the
  time value in milliseconds, \<open>None\<close> for an invalid date, whose time value is NaN.
\<close>

definition time_value :: "int option \<Rightarrow> jsnum" where
  "time_value t = (case t of None \<Rightarrow> NaN | Some ms \<Rightarrow> Num (of_int ms))"

definition msPerDay :: int where
  "msPerDay = 1000 * 60 * 60 * 24"

text \<open>
  What ECMAScript prescribes for the date-only form \<^verbatim>\<open>YYYY-MM-DD\<close> of a valid calendar
  day: midnight UTC of that day. \<open>iso_date_parse\<close> is \<open>None\<close> on every other string.
\<close>

definition is_digit :: "char \<Rightarrow> bool" where
  "is_digit c \<longleftrightarrow> CHR ''0'' \<le> c \<and> c \<le> CHR ''9''"

definition digit_val :: "char \<Rightarrow> int" where
  "digit_val c = int (of_char c) - 48"

definition is_leap :: "int \<Rightarrow> bool" where
  "is_leap y \<longleftrightarrow> (y mod 4 = 0 \<and> y mod 100 \<noteq> 0) \<or> y mod 400 = 0"

definition days_in_month :: "int \<Rightarrow> int \<Rightarrow> int" where
  "days_in_month y m =
     (if m = 2 then (if is_leap y then 29 else 28)
      else if m = 4 \<or> m = 6 \<or> m = 9 \<or> m = 11 then 30 else 31)"

text \<open>The days of the years \<open>0 .. y - 1\<close>, and the days of the months before \<open>m\<close> in year \<open>y\<close>.\<close>

definition days_before_year :: "int \<Rightarrow> int" where
  "days_before_year y = 365 * y + (y + 3) div 4 - (y + 99) div 100 + (y + 399) div 400"

definition days_before_month :: "int \<Rightarrow> int \<Rightarrow> int" where
  "days_before_month y m = (\<Sum>k \<leftarrow> [1 ..< nat m]. days_in_month y (int k))"

definition day_number :: "int \<Rightarrow> int \<Rightarrow> int \<Rightarrow> int" where
  "day_number y m d =
     days_before_year y + days_before_month y m + (d - 1) - days_before_year 1970"

fun date_fields :: "string \<Rightarrow> (int \<times> int \<times> int) option" where
  "date_fields [y1, y2, y3, y4, s1, m1, m2, s2, d1, d2] =
     (if s1 = CHR ''-'' \<and> s2 = CHR ''-''
         \<and> is_digit y1 \<and> is_digit y2 \<and> is_digit y3 \<and> is_digit y4
         \<and> is_digit m1 \<and> is_digit m2 \<and> is_digit d1 \<and> is_digit d2
      then Some (1000 * digit_val y1 + 100 * digit_val y2 + 10 * digit_val y3 + digit_val y4,
                 10 * digit_val m1 + digit_val m2,
                 10 * digit_val d1 + digit_val d2)
      else None)"
| "date_fields _ = None"

definition calendar_day :: "string \<Rightarrow> int option" where
  "calendar_day s =
     (case date_fields s of
        None \<Rightarrow> None
      | Some (y, m, d) \<Rightarrow>
          if 1 \<le> m \<and> m \<le> 12 \<and> 1 \<le> d \<and> d \<le> days_in_month y m
          then Some (day_number y m d) else None)"

definition iso_date_parse :: "string \<Rightarrow> int option" where
  "iso_date_parse s = map_option (\<lambda>n. n * msPerDay) (calendar_day s)"

section \<open>Badge eligibility engine\<close>

text \<open>The aggregate counters of one user, JavaScript numbers.\<close>

record UserStats =
  totalPrompts :: real
  activePrompts :: real
  totalUsage :: real
  totalRatings :: real
  stats_averageRating :: real
  longestStreak :: real
  featuredPrompts :: real
  topRankedPrompts :: real
  currentBadgeCount :: real

text \<open>One entry of \<^verbatim>\<open>this.badgeCriteria\<close>: the \<^verbatim>\<open>type\<close> and the \<^verbatim>\<open>check\<close> closure.\<close>

record Criteria =
  criteria_type :: string
  check :: "UserStats \<Rightarrow> bool"

text \<open>
  \<^verbatim>\<open>Object.entries(this.badgeCriteria)\<close>: the keys are strings that are not array
  indices, so the entries come in the order of the object literal.
\<close>

definition badgeCriteria :: "(string \<times> Criteria) list" where
  "badgeCriteria =
     [(''first-steps'',
        \<lparr>criteria_type = ''submission'', check = (\<lambda>stats. totalPrompts stats \<ge> 1)\<rparr>),
      (''getting-started'',
        \<lparr>criteria_type = ''submission'', check = (\<lambda>stats. totalPrompts stats \<ge> 5)\<rparr>),
      (''prolific-creator'',
        \<lparr>criteria_type = ''submission'', check = (\<lambda>stats. totalPrompts stats \<ge> 25)\<rparr>),
      (''content-machine'',
        \<lparr>criteria_type = ''submission'', check = (\<lambda>stats. totalPrompts stats \<ge> 100)\<rparr>),
      (''popular-choice'',
        \<lparr>criteria_type = ''usage'', check = (\<lambda>stats. totalUsage stats \<ge> 100)\<rparr>),
      (''crowd-favorite'',
        \<lparr>criteria_type = ''usage'', check = (\<lambda>stats. totalUsage stats \<ge> 500)\<rparr>),
      (''viral-creator'',
        \<lparr>criteria_type = ''usage'', check = (\<lambda>stats. totalUsage stats \<ge> 2000)\<rparr>),
      (''well-received'',
        \<lparr>criteria_type = ''score'',
         check = (\<lambda>stats. stats_averageRating stats \<ge> 35 / 10 \<and> totalRatings stats \<ge> 5)\<rparr>),
      (''highly-rated'',
        \<lparr>criteria_type = ''score'',
         check = (\<lambda>stats. stats_averageRating stats \<ge> 4 \<and> totalRatings stats \<ge> 10)\<rparr>),
      (''excellence'',
        \<lparr>criteria_type = ''score'',
         check = (\<lambda>stats. stats_averageRating stats \<ge> 45 / 10 \<and> totalRatings stats \<ge> 25)\<rparr>),
      (''perfection'',
        \<lparr>criteria_type = ''score'',
         check = (\<lambda>stats. stats_averageRating stats \<ge> 48 / 10 \<and> totalRatings stats \<ge> 50)\<rparr>),
      (''consistent'',
        \<lparr>criteria_type = ''streak'', check = (\<lambda>stats. longestStreak stats \<ge> 7)\<rparr>),
      (''dedicated'',
        \<lparr>criteria_type = ''streak'', check = (\<lambda>stats. longestStreak stats \<ge> 30)\<rparr>),
      (''trendsetter'',
        \<lparr>criteria_type = ''special'', check = (\<lambda>stats. featuredPrompts stats \<ge> 1)\<rparr>),
      (''community-favorite'',
        \<lparr>criteria_type = ''special'', check = (\<lambda>stats. topRankedPrompts stats \<ge> 3)\<rparr>)]"

text \<open>
  An element of \<^verbatim>\<open>currentBadges\<close> is any object with a \<^verbatim>\<open>badgeId\<close>; a grant is such an
  object, with a \<^verbatim>\<open>type\<close> and the time \<^verbatim>\<open>earnedAt\<close>.
\<close>

record UserBadge =
  badgeId :: string

record BadgeGrant = UserBadge +
  badge_type :: string
  earnedAt :: int

text \<open>The \<^verbatim>\<open>for\<close> loop of \<^verbatim>\<open>checkEligibility\<close> over the entries, pushing onto \<open>eligibleBadges\<close>.\<close>

fun eligibility_loop ::
  "int \<Rightarrow> UserStats \<Rightarrow> string set \<Rightarrow> (string \<times> Criteria) list \<Rightarrow> BadgeGrant list
     \<Rightarrow> BadgeGrant list" where
  "eligibility_loop now userStats currentBadgeIds [] eligibleBadges = eligibleBadges"
| "eligibility_loop now userStats currentBadgeIds ((bid, criteria) # entries) eligibleBadges =
     eligibility_loop now userStats currentBadgeIds entries
       (if bid \<notin> currentBadgeIds \<and> check criteria userStats
        then eligibleBadges @
               [\<lparr>badgeId = bid, badge_type = criteria_type criteria, earnedAt = now\<rparr>]
        else eligibleBadges)"

definition checkEligibility ::
  "int \<Rightarrow> UserStats \<Rightarrow> 'a UserBadge_scheme list \<Rightarrow> BadgeGrant list" where
  "checkEligibility now userStats currentBadges =
     (let currentBadgeIds = set (map badgeId currentBadges)
      in eligibility_loop now userStats currentBadgeIds badgeCriteria [])"

text \<open>
  \<^verbatim>\<open>calculateLongestStreak\<close>. \<^verbatim>\<open>dates.sort()\<close> sorts the strings by their code units, in
  place: the caller's array is sorted afterwards. On the ASCII strings modelled here that
  is the lexicographic order of the characters. The loop runs on the index \<open>i\<close>.
\<close>

function streak_loop ::
  "(string \<Rightarrow> int option) \<Rightarrow> string list \<Rightarrow> nat \<Rightarrow> nat \<Rightarrow> nat \<Rightarrow> nat" where
  "streak_loop parse dates i longest current =
     (if i < length dates then
        (let prevDate = time_value (parse (dates ! (i - 1)));
             currentDate = time_value (parse (dates ! i));
             dayDiff = js_div (js_sub currentDate prevDate) (Num (of_int msPerDay))
         in if js_eq dayDiff (Num 1)
            then streak_loop parse dates (i + 1) (max longest (current + 1)) (current + 1)
            else if js_gt dayDiff (Num 1)
            then streak_loop parse dates (i + 1) longest 1
            else streak_loop parse dates (i + 1) longest current)
      else longest)"
  by pat_completeness auto
termination
  by (relation "measure (\<lambda>(parse, dates, i, longest, current). length dates - i)") auto

declare streak_loop.simps [simp del]

definition calculateLongestStreak :: "(string \<Rightarrow> int option) \<Rightarrow> string list \<Rightarrow> nat" where
  "calculateLongestStreak parse dates =
     (if length dates = 0 then 0 else streak_loop parse (sort dates) 1 1 1)"

text \<open>The objects read by \<^verbatim>\<open>calculateUserStats\<close> and by the leaderboards.\<close>

record Prompt =
  prompt_id :: string
  categoryId :: string
  status :: string
  isPublic :: bool
  isFeatured :: bool
  createdAt :: string
  prompt_score :: real
  prompt_usageCount :: real
  prompt_ratingCount :: real
  prompt_averageRating :: real

record PromptScore =
  promptId :: string
  rating_score :: real

record UsageEvent =
  event_createdAt :: string

record UserData =
  prompts :: "Prompt list"
  promptScores :: "PromptScore list"
  usageAnalytics :: "UsageEvent list"
  userBadges :: "UserBadge list"

text \<open>\<^verbatim>\<open>s.split('T')[0]\<close>: the part of the string before the first \<^verbatim>\<open>T\<close>.\<close>

definition date_part :: "string \<Rightarrow> string" where
  "date_part s = takeWhile (\<lambda>c. c \<noteq> CHR ''T'') s"

text \<open>\<^verbatim>\<open>Array.from\<close> of a \<^verbatim>\<open>Set\<close> filled in the order of a list: the first occurrences.\<close>

definition set_in_insertion_order :: "'a list \<Rightarrow> 'a list" where
  "set_in_insertion_order xs = rev (remdups (rev xs))"

definition calculateUserStats :: "(string \<Rightarrow> int option) \<Rightarrow> UserData \<Rightarrow> UserStats" where
  "calculateUserStats parse userData =
     (let ps = prompts userData;
          ratingsReceived =
            filter (\<lambda>s. list_ex (\<lambda>p. prompt_id p = promptId s) ps) (promptScores userData);
          nRatings = length ratingsReceived;
          avg = (if nRatings > 0
                 then foldl (\<lambda>sum r. sum + rating_score r) 0 ratingsReceived / of_nat nRatings
                 else 0);
          activityDates =
            set_in_insertion_order
              (map (\<lambda>p. date_part (createdAt p)) ps
               @ map (\<lambda>a. date_part (event_createdAt a)) (usageAnalytics userData))
      in \<lparr>totalPrompts = of_nat (length ps),
          activePrompts = of_nat (length (filter (\<lambda>p. status p = ''active'') ps)),
          totalUsage = foldl (\<lambda>sum p. sum + prompt_usageCount p) 0 ps,
          totalRatings = of_nat nRatings,
          stats_averageRating = of_int (round_half_up (avg * 100)) / 100,
          longestStreak = of_nat (calculateLongestStreak parse activityDates),
          featuredPrompts = of_nat (length (filter isFeatured ps)),
          topRankedPrompts = of_nat (length (filter (\<lambda>p. prompt_score p \<ge> 150) ps)),
          currentBadgeCount = of_nat (length (userBadges userData))\<rparr>)"

section \<open>Leaderboard engine\<close>

text \<open>
  \<^verbatim>\<open>Array.prototype.sort\<close> with a comparator. The sort is stable, and an element moves
  behind another only when the comparator is positive on them; a comparator value NaN
  counts as \<open>0\<close>. For a consistent comparator the result is the one that every stable
  sort computes; for an inconsistent one ECMAScript leaves the order to the
  implementation, and the insertion sort here is one such order.
\<close>

fun js_insort :: "('a \<Rightarrow> 'a \<Rightarrow> jsnum) \<Rightarrow> 'a \<Rightarrow> 'a list \<Rightarrow> 'a list" where
  "js_insort cmp x [] = [x]"
| "js_insort cmp x (y # ys) =
     (if js_gt (cmp x y) (Num 0) then y # js_insort cmp x ys else x # y # ys)"

definition js_sort :: "('a \<Rightarrow> 'a \<Rightarrow> jsnum) \<Rightarrow> 'a list \<Rightarrow> 'a list" where
  "js_sort cmp xs = foldr (js_insort cmp) xs []"

text \<open>
  \<^verbatim>\<open>xs.slice(0, limit)\<close> for an integer \<open>limit\<close>: a negative limit counts from the end
  of the array.
\<close>

definition slice0 :: "int \<Rightarrow> 'a list \<Rightarrow> 'a list" where
  "slice0 limit xs =
     (if limit < 0 then take (nat (max (int (length xs) + limit) 0)) xs
      else take (nat (min limit (int (length xs)))) xs)"

text \<open>\<^verbatim>\<open>xs.map((x, index) => f(x, index))\<close>.\<close>

definition map_indexed :: "('a \<Rightarrow> nat \<Rightarrow> 'b) \<Rightarrow> 'a list \<Rightarrow> 'b list" where
  "map_indexed f xs = map (\<lambda>(index, x). f x index) (enumerate 0 xs)"

record User =
  user_id :: string
  isActive :: bool
  user_totalScore :: real
  user_totalPrompts :: real
  user_averageRating :: real
  user_prompts :: "Prompt list"

text \<open>Every leaderboard entry carries a rank and the name of its leaderboard.\<close>

record RankedEntry =
  rank :: nat
  leaderboardType :: string

record GlobalEntry = RankedEntry +
  global_user :: User

definition global_compare :: "User \<Rightarrow> User \<Rightarrow> jsnum" where
  "global_compare a b =
     (if user_totalScore b \<noteq> user_totalScore a
      then Num (user_totalScore b - user_totalScore a)
      else if user_totalPrompts b \<noteq> user_totalPrompts a
      then Num (user_totalPrompts b - user_totalPrompts a)
      else Num (user_averageRating b - user_averageRating a))"

definition generateGlobalLeaderboard :: "User list \<Rightarrow> int \<Rightarrow> GlobalEntry list" where
  "generateGlobalLeaderboard users limit =
     map_indexed
       (\<lambda>user index. \<lparr>rank = index + 1, leaderboardType = ''global'', global_user = user\<rparr>)
       (slice0 limit
          (js_sort global_compare
             (filter (\<lambda>user. isActive user \<and> user_totalScore user > 0) users)))"

definition calculateCategoryAverageRating :: "Prompt list \<Rightarrow> real" where
  "calculateCategoryAverageRating ps =
     (if length ps = 0 then 0
      else let nRatings = foldl (\<lambda>sum p. sum + prompt_ratingCount p) 0 ps
           in if nRatings = 0 then 0
              else let weightedSum =
                         foldl (\<lambda>sum p. sum + prompt_averageRating p * prompt_ratingCount p) 0 ps
                   in of_int (round_half_up ((weightedSum / nRatings) * 100)) / 100)"

text \<open>The user with the category fields that the \<^verbatim>\<open>map\<close> step adds.\<close>

record CategoryUser =
  category_user :: User
  categoryPrompts :: nat
  categoryScore :: real
  categoryUsage :: real
  categoryAverageRating :: real

record CategoryEntry = RankedEntry +
  category_entry :: CategoryUser
  entry_categoryId :: string

definition category_user_of :: "string \<Rightarrow> User \<Rightarrow> CategoryUser" where
  "category_user_of cid user =
     (let categoryPrompts =
            filter (\<lambda>p. categoryId p = cid \<and> status p = ''active'') (user_prompts user)
      in \<lparr>category_user = user,
          categoryPrompts = length categoryPrompts,
          categoryScore = foldl (\<lambda>sum p. sum + prompt_score p) 0 categoryPrompts,
          categoryUsage = foldl (\<lambda>sum p. sum + prompt_usageCount p) 0 categoryPrompts,
          categoryAverageRating = calculateCategoryAverageRating categoryPrompts\<rparr>)"

definition category_compare :: "CategoryUser \<Rightarrow> CategoryUser \<Rightarrow> jsnum" where
  "category_compare a b =
     (if categoryScore b \<noteq> categoryScore a
      then Num (categoryScore b - categoryScore a)
      else if categoryUsage b \<noteq> categoryUsage a
      then Num (categoryUsage b - categoryUsage a)
      else Num (categoryAverageRating b - categoryAverageRating a))"

definition generateCategoryLeaderboard ::
  "User list \<Rightarrow> string \<Rightarrow> int \<Rightarrow> CategoryEntry list" where
  "generateCategoryLeaderboard users cid limit =
     map_indexed
       (\<lambda>user index. \<lparr>rank = index + 1, leaderboardType = ''category'',
                       category_entry = user, entry_categoryId = cid\<rparr>)
       (slice0 limit
          (js_sort category_compare
             (filter (\<lambda>user. categoryPrompts user > 0)
                (map (category_user_of cid) (filter isActive users)))))"

text \<open>
  \<^verbatim>\<open>calculateTrendingScore\<close>. The age is the clock minus the time value of \<open>createdAt\<close>,
  in days; \<open>days\<close> is an integer. \<^verbatim>\<open>x || 0\<close> is \<open>x\<close> on a finite number.
\<close>

definition calculateTrendingScore ::
  "(string \<Rightarrow> int option) \<Rightarrow> int \<Rightarrow> Prompt \<Rightarrow> int \<Rightarrow> jsnum" where
  "calculateTrendingScore parse now prompt days =
     (let age = js_div (js_sub (Num (of_int now)) (time_value (parse (createdAt prompt))))
                  (Num (of_int msPerDay));
          ageMultiplier =
            js_max (Num (1 / 10)) (js_sub (Num 1) (js_div age (Num (of_int days))))
      in js_round
           (js_add
              (js_add (js_mul (Num (prompt_score prompt)) ageMultiplier)
                      (js_mul (js_mul (Num (prompt_usageCount prompt)) (Num 2)) ageMultiplier))
              (js_mul (js_mul (Num (prompt_averageRating prompt)) (Num 10)) ageMultiplier)))"

record TrendingEntry = RankedEntry +
  trending_prompt :: Prompt
  trendingScore :: jsnum

text \<open>
  \<^verbatim>\<open>generateTrendingLeaderboard\<close>. \<^verbatim>\<open>cutoffDate.setDate(cutoffDate.getDate() - days)\<close>
  moves the clock back by \<open>days\<close> calendar days of the local time zone; the time zone is
  taken to be UTC, where that is \<open>days\<close> times 24 hours.
\<close>

definition generateTrendingLeaderboard ::
  "(string \<Rightarrow> int option) \<Rightarrow> int \<Rightarrow> Prompt list \<Rightarrow> int \<Rightarrow> int \<Rightarrow> TrendingEntry list" where
  "generateTrendingLeaderboard parse now ps days limit =
     (let cutoffDate = now - days * msPerDay
      in map_indexed
           (\<lambda>prompt index.
              \<lparr>rank = index + 1, leaderboardType = ''trending'', trending_prompt = prompt,
               trendingScore = calculateTrendingScore parse now prompt days\<rparr>)
           (slice0 limit
              (js_sort
                 (\<lambda>a b. js_sub (calculateTrendingScore parse now b days)
                               (calculateTrendingScore parse now a days))
                 (filter
                    (\<lambda>prompt. status prompt = ''active'' \<and> isPublic prompt
                       \<and> js_ge (time_value (parse (createdAt prompt))) (Num (of_int cutoffDate)))
                    ps))))"

section \<open>Reference definitions of the specification\<close>


text \<open>
  The tier function as the specification words it: \<open><3 \<rightarrow> 0.6\<close>, \<open><5 \<rightarrow> 0.7\<close>,
  \<open><10 \<rightarrow> 0.8\<close>, \<open><25 \<rightarrow> 0.9\<close>, \<open><50 \<rightarrow> 0.95\<close>, \<open>\<ge>50 \<rightarrow> 1.0\<close>.
\<close>

definition spec_confidence :: "real \<Rightarrow> real" where
  "spec_confidence rc =
     (if rc < 3 then 6 / 10
      else if rc < 5 then 7 / 10
      else if rc < 10 then 8 / 10
      else if rc < 25 then 9 / 10
      else if rc < 50 then 95 / 100
      else 1)"

text \<open>The badge registry as the specification tables it: id, type, predicate.\<close>

definition spec_registry :: "(string \<times> string \<times> (UserStats \<Rightarrow> bool)) list" where
  "spec_registry =
     [(''first-steps'', ''submission'', \<lambda>s. totalPrompts s \<ge> 1),
      (''getting-started'', ''submission'', \<lambda>s. totalPrompts s \<ge> 5),
      (''prolific-creator'', ''submission'', \<lambda>s. totalPrompts s \<ge> 25),
      (''content-machine'', ''submission'', \<lambda>s. totalPrompts s \<ge> 100),
      (''popular-choice'', ''usage'', \<lambda>s. totalUsage s \<ge> 100),
      (''crowd-favorite'', ''usage'', \<lambda>s. totalUsage s \<ge> 500),
      (''viral-creator'', ''usage'', \<lambda>s. totalUsage s \<ge> 2000),
      (''well-received'', ''score'', \<lambda>s. stats_averageRating s \<ge> 35 / 10 \<and> totalRatings s \<ge> 5),
      (''highly-rated'', ''score'', \<lambda>s. stats_averageRating s \<ge> 4 \<and> totalRatings s \<ge> 10),
      (''excellence'', ''score'', \<lambda>s. stats_averageRating s \<ge> 45 / 10 \<and> totalRatings s \<ge> 25),
      (''perfection'', ''score'', \<lambda>s. stats_averageRating s \<ge> 48 / 10 \<and> totalRatings s \<ge> 50),
      (''consistent'', ''streak'', \<lambda>s. longestStreak s \<ge> 7),
      (''dedicated'', ''streak'', \<lambda>s. longestStreak s \<ge> 30),
      (''trendsetter'', ''special'', \<lambda>s. featuredPrompts s \<ge> 1),
      (''community-favorite'', ''special'', \<lambda>s. topRankedPrompts s \<ge> 3)]"

definition spec_grants ::
  "int \<Rightarrow> UserStats \<Rightarrow> string set \<Rightarrow> BadgeGrant list" where
  "spec_grants now stats held =
     map (\<lambda>(bid, ty, predicate). \<lparr>badgeId = bid, badge_type = ty, earnedAt = now\<rparr>)
       (filter (\<lambda>(bid, ty, predicate). bid \<notin> held \<and> predicate stats) spec_registry)"

text \<open>
  The reference algorithm for the longest streak, on day numbers: sort ascending, scan
  consecutively; a gap of exactly one day increments the running streak, a larger gap
  resets it to 1, a gap of zero does neither; the result is the maximum streak seen,
  and 0 on the empty input.
\<close>

fun spec_scan :: "int \<Rightarrow> int list \<Rightarrow> nat \<Rightarrow> nat \<Rightarrow> nat" where
  "spec_scan previous [] running best = best"
| "spec_scan previous (d # ds) running best =
     (let gap = d - previous;
          running' = (if gap = 1 then running + 1 else if gap > 1 then 1 else running)
      in spec_scan d ds running' (max best running'))"

definition spec_longest_streak :: "int list \<Rightarrow> nat" where
  "spec_longest_streak days =
     (case sort days of [] \<Rightarrow> 0 | d # ds \<Rightarrow> spec_scan d ds 1 1)"

section \<open>Auxiliary notions\<close>

text \<open>The grant pushed for a registry entry, and the condition under which it is pushed.\<close>

definition grant_of :: "int \<Rightarrow> string \<times> Criteria \<Rightarrow> BadgeGrant" where
  "grant_of now e = \<lparr>badgeId = fst e, badge_type = criteria_type (snd e), earnedAt = now\<rparr>"

definition grantable :: "UserStats \<Rightarrow> string set \<Rightarrow> string \<times> Criteria \<Rightarrow> bool" where
  "grantable stats held e \<longleftrightarrow> fst e \<notin> held \<and> check (snd e) stats"

text \<open>A valid calendar date, and the day number of a string that is one.\<close>

definition valid_date :: "int \<Rightarrow> int \<Rightarrow> int \<Rightarrow> bool" where
  "valid_date y m d \<longleftrightarrow> 1 \<le> m \<and> m \<le> 12 \<and> 1 \<le> d \<and> d \<le> days_in_month y m"

definition day_of :: "string \<Rightarrow> int" where
  "day_of s = (case calendar_day s of None \<Rightarrow> 0 | Some n \<Rightarrow> n)"

text \<open>The \<^verbatim>\<open>ageMultiplier\<close> of \<^verbatim>\<open>calculateTrendingScore\<close> for a valid creation date.\<close>

definition age_multiplier :: "int \<Rightarrow> int \<Rightarrow> int \<Rightarrow> real" where
  "age_multiplier now created days =
     max (1 / 10) (1 - (of_int (now - created) / of_int msPerDay) / of_int days)"

text \<open>Inputs for examples.\<close>

definition example_signal :: PromptSignal where
  "example_signal =
     \<lparr>averageRating = 5, ratingCount = 50, usageCount = 9, daysSinceCreated = 1,
      lastUsedDaysAgo = None, favoriteCount = 10, shareCount = 0, viewCount = 0,
      commentCount = 0\<rparr>"

definition low_rating_signal :: PromptSignal where
  "low_rating_signal =
     \<lparr>averageRating = 0, ratingCount = 1, usageCount = 0, daysSinceCreated = 40,
      lastUsedDaysAgo = None, favoriteCount = 0, shareCount = 0, viewCount = 0,
      commentCount = 0\<rparr>"

definition example_user :: "string \<Rightarrow> bool \<Rightarrow> real \<Rightarrow> User" where
  "example_user name active tscore =
     \<lparr>user_id = name, isActive = active, user_totalScore = tscore, user_totalPrompts = 1,
      user_averageRating = 4, user_prompts = []\<rparr>"

definition example_prompt :: Prompt where
  "example_prompt =
     \<lparr>prompt_id = ''p'', categoryId = ''writing-content'', status = ''active'',
      isPublic = True, isFeatured = False, createdAt = ''1970-01-01'',
      prompt_score = 10, prompt_usageCount = 0, prompt_ratingCount = 0,
      prompt_averageRating = 0\<rparr>"

definition example_stats :: UserStats where
  "example_stats =
     \<lparr>totalPrompts = 5, activePrompts = 5, totalUsage = 0, totalRatings = 0,
      stats_averageRating = 0, longestStreak = 0, featuredPrompts = 0, topRankedPrompts = 0,
      currentBadgeCount = 0\<rparr>"

definition example_users :: "User list" where
  "example_users =
     [example_user ''a'' True 10, example_user ''b'' True 30, example_user ''c'' False 50,
      example_user ''d'' True 20]"

definition negative_signal :: PromptSignal where
  "negative_signal =
     \<lparr>averageRating = 0, ratingCount = 0, usageCount = 0, daysSinceCreated = 40,
      lastUsedDaysAgo = None, favoriteCount = - 1, shareCount = 0, viewCount = 0,
      commentCount = 0\<rparr>"

definition negative_stats :: UserStats where
  "negative_stats =
     \<lparr>totalPrompts = - 1, activePrompts = - 1, totalUsage = - 1, totalRatings = - 1,
      stats_averageRating = 0, longestStreak = - 1, featuredPrompts = - 1,
      topRankedPrompts = - 1, currentBadgeCount = - 1\<rparr>"

text \<open>
  Numbers of magnitude at most \<open>2^53\<close>: on them no product or sum of the scoring formulas
  overflows in double arithmetic.
\<close>

definition safe_magnitude :: "real \<Rightarrow> bool" where
  "safe_magnitude x \<longleftrightarrow> \<bar>x\<bar> \<le> 2 ^ 53"

definition safe_fields :: "PromptSignal \<Rightarrow> bool" where
  "safe_fields p \<longleftrightarrow>
     safe_magnitude (averageRating p) \<and> safe_magnitude (ratingCount p)
     \<and> safe_magnitude (usageCount p) \<and> safe_magnitude (daysSinceCreated p)
     \<and> (case lastUsedDaysAgo p of None \<Rightarrow> True | Some l \<Rightarrow> safe_magnitude l)
     \<and> safe_magnitude (favoriteCount p) \<and> safe_magnitude (shareCount p)
     \<and> safe_magnitude (viewCount p) \<and> safe_magnitude (commentCount p)"

definition unfavoured_signal :: PromptSignal where
  "unfavoured_signal =
     \<lparr>averageRating = 5, ratingCount = 50, usageCount = 9, daysSinceCreated = 1,
      lastUsedDaysAgo = None, favoriteCount = - 5, shareCount = 0, viewCount = 0,
      commentCount = 0\<rparr>"

definition no_prompts_stats :: UserStats where
  "no_prompts_stats =
     \<lparr>totalPrompts = - 1, activePrompts = 0, totalUsage = 100, totalRatings = 0,
      stats_averageRating = 0, longestStreak = 0, featuredPrompts = 0,
      topRankedPrompts = 0, currentBadgeCount = 0\<rparr>"

definition example_prompt_next_day :: Prompt where
  "example_prompt_next_day = example_prompt\<lparr>createdAt := ''1970-01-02''\<rparr>"

section \<open>Theorems\<close>

lemma getConfidenceMultiplier_spec: "getConfidenceMultiplier rc = spec_confidence rc"
  by (simp add: getConfidenceMultiplier_def spec_confidence_def)

lemma getConfidenceMultiplier_mono:
  "a \<le> b \<Longrightarrow> getConfidenceMultiplier a \<le> getConfidenceMultiplier b"
  by (simp add: getConfidenceMultiplier_def)

text \<open>
  Claim C2. For every rating count of at least 1, the confidence multiplier is the tier
  function of the specification, and it never decreases when the rating count grows.
\<close>

theorem C2_confidence_multiplier:
  "1 \<le> rc \<longrightarrow>
     getConfidenceMultiplier rc = spec_confidence rc
     \<and> (\<forall>rc'. rc \<le> rc' \<longrightarrow> getConfidenceMultiplier rc \<le> getConfidenceMultiplier rc')"
  by (simp add: getConfidenceMultiplier_spec
        getConfidenceMultiplier_mono [unfolded getConfidenceMultiplier_spec])

theorem C2_confidence_multiplier_witness:
  "(1::real) \<le> 3
   \<and> getConfidenceMultiplier 3 = spec_confidence 3
   \<and> getConfidenceMultiplier 3 = 7 / 10
   \<and> getConfidenceMultiplier 3 \<le> getConfidenceMultiplier 50
   \<and> getConfidenceMultiplier 50 = 1"
  using C2_confidence_multiplier [of 3]
  by (simp add: spec_confidence_def getConfidenceMultiplier_def)

subsection \<open>Bounds of the sub-scores\<close>

lemma round_half_up_le: "x \<le> of_int k \<Longrightarrow> round_half_up x \<le> k"
  unfolding round_half_up_def by linarith

lemma calculateRatingScore_le: "averageRating p \<le> 5 \<Longrightarrow> calculateRatingScore p \<le> 100"
  unfolding calculateRatingScore_def Let_def maxScores_rating_def getConfidenceMultiplier_def
  by (auto intro!: round_half_up_le)

lemma calculateRecencyScore_le: "calculateRecencyScore p \<le> 20"
  unfolding calculateRecencyScore_def Let_def maxScores_recency_def
  by (auto intro!: round_half_up_le)

lemma calculateEngagementScore_le: "calculateEngagementScore p \<le> 30"
  unfolding calculateEngagementScore_def Let_def maxScores_engagement_def
  by (auto intro!: round_half_up_le)

text \<open>The usage score on a usage count above -1: a finite number.\<close>

lemma calculateUsageScore_Num:
  assumes "- 1 < usageCount p"
  shows "\<exists>u::int. calculateUsageScore p = Num (of_int u) \<and> u \<le> 50"
proof (cases "usageCount p = 0")
  case True
  then show ?thesis by (intro exI [of _ 0]) (simp add: calculateUsageScore_def)
next
  case False
  with assms show ?thesis
    unfolding calculateUsageScore_def Let_def maxScores_usage_def
    by (auto intro!: round_half_up_le)
qed

lemma totalScore_Num:
  assumes "- 1 < usageCount p"
  shows "\<exists>u::int. calculateUsageScore p = Num (of_int u) \<and> u \<le> 50 \<and>
     totalScore p = Num (of_int (round_half_up
        (of_int (calculateRatingScore p) * (4 / 10) + of_int u * (3 / 10)
         + of_int (calculateRecencyScore p) * (2 / 10)
         + of_int (calculateEngagementScore p) * (1 / 10))))"
proof -
  from calculateUsageScore_Num [OF assms] obtain u :: int
    where u: "calculateUsageScore p = Num (of_int u)" "u \<le> 50" by blast
  then show ?thesis
    by (intro exI [of _ u])
      (simp add: totalScore_def weights_rating_def weights_usage_def weights_recency_def
        weights_engagement_def)
qed

lemma calculateScore_Num:
  assumes "totalScore p = Num (of_int t)"
  shows "calculateScore p = Num (of_int (max 0 (min 200 t)))"
  using assms by (simp add: calculateScore_def)


lemma nonneg_example_signal: "nonneg_fields example_signal"
  by (simp add: nonneg_fields_def example_signal_def)

lemma nonneg_low_rating_signal: "nonneg_fields low_rating_signal"
  by (simp add: nonneg_fields_def low_rating_signal_def)

lemma calculateScore_low_rating_signal:
  "calculateRatingScore low_rating_signal = - 15" "calculateScore low_rating_signal = Num 0"
  by (simp_all add: calculateScore_def totalScore_def calculateRatingScore_def
      calculateUsageScore_def calculateRecencyScore_def calculateEngagementScore_def
      getConfidenceMultiplier_def low_rating_signal_def round_half_up_def
      weights_rating_def weights_usage_def weights_recency_def weights_engagement_def
      maxScores_rating_def maxScores_usage_def maxScores_recency_def maxScores_engagement_def)

lemma calculateScore_example_signal: "calculateScore example_signal = Num 58"
  by (simp add: calculateScore_def totalScore_def calculateRatingScore_def
      calculateUsageScore_def calculateRecencyScore_def calculateEngagementScore_def
      getConfidenceMultiplier_def example_signal_def round_half_up_def
      weights_rating_def weights_usage_def weights_recency_def weights_engagement_def
      maxScores_rating_def maxScores_usage_def maxScores_recency_def maxScores_engagement_def)

text \<open>
  Claim C8. For every signal whose numeric fields are all non-negative, with the average
  rating anywhere in \<open>[0, 5]\<close>, \<open>calculateScore\<close> returns an integer in \<open>[0, 200]\<close>.
\<close>

theorem C8_total_score_range:
  assumes "nonneg_fields p"
  shows "\<exists>s::int. calculateScore p = Num (of_int s) \<and> 0 \<le> s \<and> s \<le> 200"
proof -
  from assms have "- 1 < usageCount p" by (simp add: nonneg_fields_def)
  from totalScore_Num [OF this] obtain t :: int where "totalScore p = Num (of_int t)"
    by blast
  then have "calculateScore p = Num (of_int (max 0 (min 200 t)))"
    by (rule calculateScore_Num)
  then show ?thesis by (intro exI [of _ "max 0 (min 200 t)"]) simp
qed

theorem C8_total_score_range_witness:
  "nonneg_fields example_signal \<and> calculateScore example_signal = Num 58
   \<and> (\<exists>s::int. calculateScore example_signal = Num (of_int s) \<and> 0 \<le> s \<and> s \<le> 200)
   \<and> nonneg_fields low_rating_signal \<and> calculateRatingScore low_rating_signal = - 15
   \<and> calculateScore low_rating_signal = Num 0
   \<and> (\<exists>s::int. calculateScore low_rating_signal = Num (of_int s) \<and> 0 \<le> s \<and> s \<le> 200)"
  using C8_total_score_range [OF nonneg_example_signal]
    C8_total_score_range [OF nonneg_low_rating_signal]
  by (simp add: nonneg_example_signal calculateScore_example_signal
      nonneg_low_rating_signal calculateScore_low_rating_signal)

text \<open>
  Claim C10. For every signal with non-negative fields and an average rating of at most 5,
  the rounded weighted sum is at most 62, so the upper clamp at 200 leaves it unchanged,
  and the score returned is below 150, the threshold of \<open>topRankedPrompts\<close>.
\<close>

theorem C10_total_score_at_most_62:
  assumes "nonneg_fields p"
  shows "maxScores_rating * weights_rating + maxScores_usage * weights_usage
           + maxScores_recency * weights_recency + maxScores_engagement * weights_engagement
           = 62
         \<and> (\<exists>t::int. totalScore p = Num (of_int t) \<and> t \<le> 62
               \<and> js_min (Num 200) (totalScore p) = totalScore p
               \<and> calculateScore p = Num (of_int (max 0 t)) \<and> max 0 t < 150)"
proof -
  have caps: "maxScores_rating * weights_rating + maxScores_usage * weights_usage
           + maxScores_recency * weights_recency + maxScores_engagement * weights_engagement
           = 62"
    by (simp add: weights_rating_def weights_usage_def weights_recency_def
        weights_engagement_def maxScores_rating_def maxScores_usage_def
        maxScores_recency_def maxScores_engagement_def)
  from assms have u1: "- 1 < usageCount p" and avg: "averageRating p \<le> 5"
    by (simp_all add: nonneg_fields_def)
  from totalScore_Num [OF u1] obtain u :: int
    where u: "u \<le> 50"
      and t: "totalScore p = Num (of_int (round_half_up
        (of_int (calculateRatingScore p) * (4 / 10) + of_int u * (3 / 10)
         + of_int (calculateRecencyScore p) * (2 / 10)
         + of_int (calculateEngagementScore p) * (1 / 10))))"
    by blast
  define t' where "t' = round_half_up
        (of_int (calculateRatingScore p) * (4 / 10) + of_int u * (3 / 10)
         + of_int (calculateRecencyScore p) * (2 / 10)
         + of_int (calculateEngagementScore p) * (1 / 10))"
  have "t' \<le> 62"
    unfolding t'_def
    using calculateRatingScore_le [OF avg] calculateRecencyScore_le [of p]
      calculateEngagementScore_le [of p] u
    by (intro round_half_up_le) simp
  moreover have tt: "totalScore p = Num (of_int t')" using t by (simp add: t'_def)
  moreover have "calculateScore p = Num (of_int (max 0 (min 200 t')))"
    using tt by (rule calculateScore_Num)
  ultimately have "\<exists>t::int. totalScore p = Num (of_int t) \<and> t \<le> 62
               \<and> js_min (Num 200) (totalScore p) = totalScore p
               \<and> calculateScore p = Num (of_int (max 0 t)) \<and> max 0 t < 150"
    by (intro exI [of _ t']) simp
  with caps show ?thesis by (rule conjI)
qed

theorem C10_total_score_at_most_62_witness:
  "nonneg_fields example_signal \<and>
   (\<exists>t::int. totalScore example_signal = Num (of_int t) \<and> t \<le> 62
           \<and> js_min (Num 200) (totalScore example_signal) = totalScore example_signal
           \<and> calculateScore example_signal = Num (of_int (max 0 t)) \<and> max 0 t < 150)"
  using C10_total_score_at_most_62 [OF nonneg_example_signal]
  by (simp add: nonneg_example_signal)


subsection \<open>Badge grants\<close>

lemma eligibility_loop_filter:
  "eligibility_loop now stats held entries acc =
     acc @ map (grant_of now) (filter (grantable stats held) entries)"
  by (induction entries arbitrary: acc) (auto simp: grant_of_def grantable_def)

lemma checkEligibility_filter:
  "checkEligibility now stats currentBadges =
     map (grant_of now) (filter (grantable stats (set (map badgeId currentBadges))) badgeCriteria)"
  by (simp add: checkEligibility_def eligibility_loop_filter)

lemma spec_registry_badgeCriteria:
  "spec_registry = map (\<lambda>e. (fst e, criteria_type (snd e), check (snd e))) badgeCriteria"
  by (simp add: badgeCriteria_def spec_registry_def)

lemma registry_agrees:
  "map (grant_of now) (filter (grantable stats held) badgeCriteria) = spec_grants now stats held"
proof -
  have g: "grant_of now = (\<lambda>e. \<lparr>badgeId = fst e, badge_type = criteria_type (snd e),
                                  earnedAt = now\<rparr>)"
    by (simp add: fun_eq_iff grant_of_def)
  have f: "grantable stats held = (\<lambda>e. fst e \<notin> held \<and> check (snd e) stats)"
    by (simp add: fun_eq_iff grantable_def)
  show ?thesis
    unfolding spec_grants_def spec_registry_badgeCriteria g f
    by (simp add: filter_map comp_def case_prod_unfold)
qed

text \<open>
  Claim C4. For every snapshot and every list of held badges, \<open>checkEligibility\<close> returns
  exactly the grants of the badges of the specification's 15-entry registry whose id is
  not held and whose predicate holds on the snapshot, in the order of the registry, from
  first-steps to community-favorite.
\<close>

theorem C4_check_eligibility:
  "checkEligibility now stats currentBadges
     = spec_grants now stats (set (map badgeId currentBadges))
   \<and> length spec_registry = 15
   \<and> map fst spec_registry =
       [''first-steps'', ''getting-started'', ''prolific-creator'', ''content-machine'',
        ''popular-choice'', ''crowd-favorite'', ''viral-creator'', ''well-received'',
        ''highly-rated'', ''excellence'', ''perfection'', ''consistent'', ''dedicated'',
        ''trendsetter'', ''community-favorite'']"
  by (simp add: checkEligibility_filter registry_agrees) (simp add: spec_registry_def)

lemma badgeId_grant_of: "badgeId (grant_of now e) = fst e"
  by (simp add: grant_of_def)

text \<open>
  Claim C5, amended. A second run on the same snapshot and the same held badges, at
  whatever reading of the clock, grants the same badge ids and types in the same order,
  each grant stamped with the time of its own run; a run whose held ids are the former
  ones united with the ids of the first result grants nothing.
\<close>

theorem C5_grants_idempotent:
  "map (\<lambda>g. (badgeId g, badge_type g)) (checkEligibility now' stats held)
       = map (\<lambda>g. (badgeId g, badge_type g)) (checkEligibility now stats held)
   \<and> (set (map badgeId held')
        = set (map badgeId held) \<union> set (map badgeId (checkEligibility now stats held))
      \<longrightarrow> checkEligibility now' stats held' = [])"
proof (intro conjI impI)
  show "map (\<lambda>g. (badgeId g, badge_type g)) (checkEligibility now' stats held)
       = map (\<lambda>g. (badgeId g, badge_type g)) (checkEligibility now stats held)"
    by (simp add: checkEligibility_filter grant_of_def)
next
  assume h: "set (map badgeId held')
        = set (map badgeId held) \<union> set (map badgeId (checkEligibility now stats held))"
  have "\<not> grantable stats (set (map badgeId held')) e" if "e \<in> set badgeCriteria" for e
  proof
    assume g: "grantable stats (set (map badgeId held')) e"
    then have "fst e \<notin> set (map badgeId held)" and c: "check (snd e) stats"
      and n: "fst e \<notin> set (map badgeId (checkEligibility now stats held))"
      unfolding h grantable_def by auto
    then have "grantable stats (set (map badgeId held)) e" by (simp add: grantable_def)
    with that have "grant_of now e \<in> set (checkEligibility now stats held)"
      by (simp add: checkEligibility_filter)
    then have "fst e \<in> set (map badgeId (checkEligibility now stats held))"
      using badgeId_grant_of [of now e] by (metis image_eqI set_map)
    with n show False by contradiction
  qed
  then have "filter (grantable stats (set (map badgeId held'))) badgeCriteria = []"
    by (simp add: filter_empty_conv)
  then show "checkEligibility now' stats held' = []"
    by (simp add: checkEligibility_filter)
qed


lemma checkEligibility_example:
  "checkEligibility now example_stats ([] :: UserBadge list) =
     [\<lparr>badgeId = ''first-steps'', badge_type = ''submission'', earnedAt = now\<rparr>,
      \<lparr>badgeId = ''getting-started'', badge_type = ''submission'', earnedAt = now\<rparr>]"
  by (simp add: checkEligibility_def badgeCriteria_def example_stats_def)

theorem C5_grants_idempotent_witness:
  "set (map badgeId
         [\<lparr>badgeId = ''first-steps''\<rparr>, \<lparr>badgeId = ''getting-started''\<rparr>])
     = set (map badgeId ([] :: UserBadge list))
       \<union> set (map badgeId (checkEligibility 1000 example_stats ([] :: UserBadge list)))
   \<and> checkEligibility 2000 example_stats
         [\<lparr>badgeId = ''first-steps''\<rparr>, \<lparr>badgeId = ''getting-started''\<rparr>] = []"
  using C5_grants_idempotent
    [of 2000 example_stats "[] :: UserBadge list" 1000
        "[\<lparr>badgeId = ''first-steps''\<rparr>, \<lparr>badgeId = ''getting-started''\<rparr>]"]
  by (simp add: checkEligibility_example)

text \<open>
  The grants of two runs on unchanged inputs are not the same values: \<open>earnedAt\<close> is the
  time of the run.
\<close>

theorem C5_same_grants_counterexample:
  "checkEligibility 1000 example_stats ([] :: UserBadge list)
     \<noteq> checkEligibility 2000 example_stats ([] :: UserBadge list)"
  by (simp add: checkEligibility_example)

subsection \<open>Ranks\<close>

lemma length_slice0_le: "0 \<le> limit \<Longrightarrow> int (length (slice0 limit xs)) \<le> limit"
  by (simp add: slice0_def)

lemma length_map_indexed [simp]: "length (map_indexed f xs) = length xs"
  by (simp add: map_indexed_def)

lemma map_indexed_ranks:
  assumes "\<And>x i. r (f x i) = i + 1"
  shows "map r (map_indexed f xs) = [1 ..< Suc (length xs)]"
proof -
  have "map r (map_indexed f xs) = map (Suc \<circ> fst) (enumerate 0 xs)"
    by (simp add: map_indexed_def assms case_prod_unfold comp_def)
  also have "\<dots> = map Suc (map fst (enumerate 0 xs))"
    by (simp only: map_map)
  also have "\<dots> = map Suc [0 ..< length xs]"
    by (simp only: map_fst_enumerate add_0)
  also have "\<dots> = [1 ..< Suc (length xs)]"
    by (simp only: map_Suc_upt One_nat_def)
  finally show ?thesis .
qed

lemma global_ranks:
  "map rank (generateGlobalLeaderboard users limit)
     = [1 ..< Suc (length (generateGlobalLeaderboard users limit))]"
  unfolding generateGlobalLeaderboard_def by (simp add: map_indexed_ranks)

lemma category_ranks:
  "map rank (generateCategoryLeaderboard users cid limit)
     = [1 ..< Suc (length (generateCategoryLeaderboard users cid limit))]"
  unfolding generateCategoryLeaderboard_def by (simp add: map_indexed_ranks)

lemma trending_ranks:
  "map rank (generateTrendingLeaderboard parse now ps days limit)
     = [1 ..< Suc (length (generateTrendingLeaderboard parse now ps days limit))]"
  unfolding generateTrendingLeaderboard_def Let_def by (simp add: map_indexed_ranks)

text \<open>
  Claim C9, amended. For each of the three leaderboards, every input collection and
  every limit, the ranks of the returned list of length \<open>N\<close> are exactly \<open>1 .. N\<close> in
  order; and \<open>N\<close> is at most the limit when the limit is not negative.
\<close>

theorem C9_dense_ranks:
  "map rank (generateGlobalLeaderboard users limit)
     = [1 ..< Suc (length (generateGlobalLeaderboard users limit))]
   \<and> map rank (generateCategoryLeaderboard users cid limit)
     = [1 ..< Suc (length (generateCategoryLeaderboard users cid limit))]
   \<and> map rank (generateTrendingLeaderboard parse now ps days limit)
     = [1 ..< Suc (length (generateTrendingLeaderboard parse now ps days limit))]
   \<and> (0 \<le> limit \<longrightarrow>
        int (length (generateGlobalLeaderboard users limit)) \<le> limit
        \<and> int (length (generateCategoryLeaderboard users cid limit)) \<le> limit
        \<and> int (length (generateTrendingLeaderboard parse now ps days limit)) \<le> limit)"
  by (simp add: global_ranks category_ranks trending_ranks)
     (simp add: generateGlobalLeaderboard_def generateCategoryLeaderboard_def
        generateTrendingLeaderboard_def length_slice0_le)

lemma global_example:
  "generateGlobalLeaderboard
     [example_user ''a'' True 10, example_user ''b'' True 30, example_user ''c'' False 50,
      example_user ''d'' True 20] 2
   = [\<lparr>rank = 1, leaderboardType = ''global'', global_user = example_user ''b'' True 30\<rparr>,
      \<lparr>rank = 2, leaderboardType = ''global'', global_user = example_user ''d'' True 20\<rparr>]"
  by (simp add: generateGlobalLeaderboard_def js_sort_def global_compare_def slice0_def
      map_indexed_def example_user_def js_gt_def)

text \<open>
  A negative limit makes \<^verbatim>\<open>slice(0, limit)\<close> drop elements from the end: with two
  users and the limit \<open>-1\<close> one entry is returned, more than the limit.
\<close>

theorem C9_negative_limit_counterexample:
  "\<not> int (length (generateGlobalLeaderboard
                     [example_user ''a'' True 10, example_user ''b'' True 30] (- 1))) \<le> - 1"
  by (simp add: generateGlobalLeaderboard_def js_sort_def global_compare_def slice0_def
      map_indexed_def example_user_def js_gt_def)


theorem C9_dense_ranks_witness:
  "(0::int) \<le> 2
   \<and> map rank (generateGlobalLeaderboard example_users 2) = [1, 2]
   \<and> int (length (generateGlobalLeaderboard example_users 2)) \<le> 2
   \<and> int (length (generateCategoryLeaderboard example_users ''writing-content'' 2)) \<le> 2
   \<and> int (length (generateTrendingLeaderboard iso_date_parse 0 [example_prompt] 7 2)) \<le> 2"
  using C9_dense_ranks
    [of example_users 2 "''writing-content''" iso_date_parse 0 "[example_prompt]" 7]
  by (simp add: global_example [folded example_users_def])

subsection \<open>Trending score\<close>

lemma round_half_up_mono: "x \<le> y \<Longrightarrow> round_half_up x \<le> round_half_up y"
  unfolding round_half_up_def by (intro floor_mono) simp

lemma calculateTrendingScore_Num:
  assumes "parse (createdAt p) = Some c" and "days \<noteq> 0"
  shows "calculateTrendingScore parse now p days =
     Num (of_int (round_half_up
       (prompt_score p * age_multiplier now c days
        + prompt_usageCount p * 2 * age_multiplier now c days
        + prompt_averageRating p * 10 * age_multiplier now c days)))"
  using assms
  by (simp add: calculateTrendingScore_def time_value_def js_sub_def msPerDay_def
      age_multiplier_def)

lemma age_multiplier_antimono:
  assumes "0 < days" and "now1 - c1 \<le> now2 - c2"
  shows "age_multiplier now2 c2 days \<le> age_multiplier now1 c1 days"
proof -
  define a1 :: real where "a1 = of_int (now1 - c1)"
  define a2 :: real where "a2 = of_int (now2 - c2)"
  define d :: real where "d = of_int days"
  define k :: real where "k = of_int msPerDay"
  have "a1 \<le> a2" unfolding a1_def a2_def using assms(2) by (simp only: of_int_le_iff)
  moreover have "0 \<le> k" by (simp add: k_def msPerDay_def)
  ultimately have "a1 / k \<le> a2 / k" by (rule divide_right_mono)
  moreover have "0 \<le> d" using assms(1) by (simp add: d_def)
  ultimately have "a1 / k / d \<le> a2 / k / d" by (rule divide_right_mono)
  then have "max (1 / 10) (1 - a2 / k / d) \<le> max (1 / 10) (1 - a1 / k / d)"
    by linarith
  then show ?thesis
    by (simp only: age_multiplier_def a1_def a2_def d_def k_def)
qed

text \<open>
  Claim C7, amended. For a fixed non-negative score, usage count and average rating and a
  positive window \<open>days\<close>, the trending score never increases when the age grows.
\<close>

theorem C7_trending_never_increases:
  assumes "0 < days"
    and "parse (createdAt p1) = Some c1" and "parse (createdAt p2) = Some c2"
    and "prompt_score p2 = prompt_score p1"
    and "prompt_usageCount p2 = prompt_usageCount p1"
    and "prompt_averageRating p2 = prompt_averageRating p1"
    and "0 \<le> prompt_score p1" and "0 \<le> prompt_usageCount p1"
    and "0 \<le> prompt_averageRating p1"
    and "now1 - c1 \<le> now2 - c2"
  shows "\<exists>s1 s2 :: int.
           calculateTrendingScore parse now1 p1 days = Num (of_int s1)
           \<and> calculateTrendingScore parse now2 p2 days = Num (of_int s2) \<and> s2 \<le> s1"
proof -
  let ?m1 = "age_multiplier now1 c1 days" and ?m2 = "age_multiplier now2 c2 days"
  let ?sum = "\<lambda>m. prompt_score p1 * m + prompt_usageCount p1 * 2 * m
                    + prompt_averageRating p1 * 10 * m"
  from assms have d: "days \<noteq> 0" by simp
  have m: "?m2 \<le> ?m1" using assms(1,10) by (rule age_multiplier_antimono)
  have "?sum ?m2 \<le> ?sum ?m1"
    using m assms(7-9) by (intro add_mono mult_left_mono) simp_all
  then have "round_half_up (?sum ?m2) \<le> round_half_up (?sum ?m1)"
    by (rule round_half_up_mono)
  moreover have "calculateTrendingScore parse now1 p1 days = Num (of_int (round_half_up (?sum ?m1)))"
    using calculateTrendingScore_Num [of parse p1 c1 days now1] assms(2) d by simp
  moreover have "calculateTrendingScore parse now2 p2 days = Num (of_int (round_half_up (?sum ?m2)))"
    using calculateTrendingScore_Num [of parse p2 c2 days now2] assms(3-6) d by simp
  ultimately show ?thesis by blast
qed

lemma calendar_day_epoch: "iso_date_parse ''1970-01-01'' = Some 0"
  by (simp add: iso_date_parse_def calendar_day_def is_digit_def digit_val_def
      days_in_month_def day_number_def days_before_year_def days_before_month_def
      less_eq_char_def)

lemma trending_at_9_days:
  "calculateTrendingScore iso_date_parse (9 * msPerDay) example_prompt 10 = Num 1"
  by (simp add: calculateTrendingScore_Num [of _ _ 0] example_prompt_def
      calendar_day_epoch age_multiplier_def msPerDay_def round_half_up_def)

lemma trending_at_1_day:
  "calculateTrendingScore iso_date_parse (1 * msPerDay) example_prompt 10 = Num 9"
  by (simp add: calculateTrendingScore_Num [of _ _ 0] example_prompt_def
      calendar_day_epoch age_multiplier_def msPerDay_def round_half_up_def)

lemma trending_at_2_days:
  "calculateTrendingScore iso_date_parse (2 * msPerDay) example_prompt 10 = Num 8"
  by (simp add: calculateTrendingScore_Num [of _ _ 0] example_prompt_def
      calendar_day_epoch age_multiplier_def msPerDay_def round_half_up_def)

lemma trending_at_9_and_a_half_days:
  "calculateTrendingScore iso_date_parse (19 * msPerDay div 2) example_prompt 10 = Num 1"
  by (simp add: calculateTrendingScore_Num [of _ _ 0] example_prompt_def
      calendar_day_epoch age_multiplier_def msPerDay_def round_half_up_def)

lemma createdAt_example_prompt: "iso_date_parse (createdAt example_prompt) = Some 0"
  by (simp add: example_prompt_def calendar_day_epoch)

theorem C7_trending_never_increases_witness:
  "(0::int) < 10 \<and> iso_date_parse (createdAt example_prompt) = Some 0
   \<and> 0 \<le> prompt_score example_prompt \<and> 0 \<le> prompt_usageCount example_prompt
   \<and> 0 \<le> prompt_averageRating example_prompt
   \<and> 1 * msPerDay - 0 \<le> 2 * msPerDay - 0
   \<and> calculateTrendingScore iso_date_parse (1 * msPerDay) example_prompt 10 = Num 9
   \<and> calculateTrendingScore iso_date_parse (2 * msPerDay) example_prompt 10 = Num 8
   \<and> (\<exists>s1 s2 :: int.
         calculateTrendingScore iso_date_parse (1 * msPerDay) example_prompt 10 = Num (of_int s1)
         \<and> calculateTrendingScore iso_date_parse (2 * msPerDay) example_prompt 10
             = Num (of_int s2)
         \<and> s2 \<le> s1)"
proof -
  have d: "(0::int) < 10" by simp
  have f: "0 \<le> prompt_score example_prompt" "0 \<le> prompt_usageCount example_prompt"
    "0 \<le> prompt_averageRating example_prompt"
    by (simp_all add: example_prompt_def)
  have a: "1 * msPerDay - 0 \<le> 2 * msPerDay - 0" by (simp add: msPerDay_def)
  from C7_trending_never_increases
    [where days = 10 and parse = iso_date_parse and ?p1.0 = example_prompt
       and ?p2.0 = example_prompt and ?c1.0 = 0 and ?c2.0 = 0
       and ?now1.0 = "1 * msPerDay" and ?now2.0 = "2 * msPerDay",
     OF d createdAt_example_prompt createdAt_example_prompt refl refl refl f a]
  show ?thesis
    using d f a createdAt_example_prompt trending_at_1_day trending_at_2_days by simp
qed

text \<open>
  The decrease is not strict: the multiplier has the floor \<open>0.1\<close>, reached at nine tenths
  of the window, and the score is rounded. At the ages of 9 and 9.5 days in a window of
  10 days a prompt of score 10 has the trending score 1 both times.
\<close>

theorem C7_strict_decay_counterexample:
  "(0::real) \<le> 9 \<and> (9::real) < 19 / 2 \<and> (19 / 2 :: real) < 10
   \<and> iso_date_parse (createdAt example_prompt) = Some 0
   \<and> real_of_int (9 * msPerDay - 0) / real_of_int msPerDay = 9
   \<and> real_of_int (19 * msPerDay div 2 - 0) / real_of_int msPerDay = 19 / 2
   \<and> \<not> js_lt (calculateTrendingScore iso_date_parse (19 * msPerDay div 2) example_prompt 10)
              (calculateTrendingScore iso_date_parse (9 * msPerDay) example_prompt 10)"
  by (simp add: trending_at_9_days trending_at_9_and_a_half_days createdAt_example_prompt)
     (simp add: msPerDay_def)

subsection \<open>The clock\<close>

lemma js_sub_time_value:
  "js_sub (Num (of_int now)) (time_value (Some c)) = Num (of_int (now - c))"
  by (simp add: js_sub_def time_value_def)

lemma calculateTrendingScore_age:
  assumes "parse (createdAt p) = Some c"
  shows "calculateTrendingScore parse now p days =
     (let age = js_div (Num (of_int (now - c))) (Num (of_int msPerDay));
          ageMultiplier =
            js_max (Num (1 / 10)) (js_sub (Num 1) (js_div age (Num (of_int days))))
      in js_round
           (js_add
              (js_add (js_mul (Num (prompt_score p)) ageMultiplier)
                      (js_mul (js_mul (Num (prompt_usageCount p)) (Num 2)) ageMultiplier))
              (js_mul (js_mul (Num (prompt_averageRating p)) (Num 10)) ageMultiplier)))"
  unfolding calculateTrendingScore_def assms js_sub_time_value ..

text \<open>
  Claim C1, amended. \<open>checkEligibility\<close> and the trending operations read the clock. The
  badge ids and types that \<open>checkEligibility\<close> grants, and their order, are the same at
  every reading of the clock. \<open>calculateTrendingScore\<close> depends on the clock only through
  the age of the prompt, the clock minus the creation time: two calls with equal score,
  usage count, average rating and window and with equal age return equal scores.
\<close>

theorem C1_clock_dependence:
  "map (\<lambda>g. (badgeId g, badge_type g)) (checkEligibility now stats held)
     = map (\<lambda>g. (badgeId g, badge_type g)) (checkEligibility now' stats held)
   \<and> (parse (createdAt p) = Some c \<and> parse' (createdAt p') = Some c'
        \<and> prompt_score p' = prompt_score p
        \<and> prompt_usageCount p' = prompt_usageCount p
        \<and> prompt_averageRating p' = prompt_averageRating p
        \<and> now' - c' = now - c
      \<longrightarrow> calculateTrendingScore parse' now' p' days
            = calculateTrendingScore parse now p days)"
proof (intro conjI impI)
  show "map (\<lambda>g. (badgeId g, badge_type g)) (checkEligibility now stats held)
       = map (\<lambda>g. (badgeId g, badge_type g)) (checkEligibility now' stats held)"
    by (simp add: checkEligibility_filter grant_of_def)
next
  assume h: "parse (createdAt p) = Some c \<and> parse' (createdAt p') = Some c'
        \<and> prompt_score p' = prompt_score p
        \<and> prompt_usageCount p' = prompt_usageCount p
        \<and> prompt_averageRating p' = prompt_averageRating p
        \<and> now' - c' = now - c"
  then have "calculateTrendingScore parse now p days
      = calculateTrendingScore parse' now' p' days"
    by (simp add: calculateTrendingScore_age [of parse p c]
        calculateTrendingScore_age [of parse' p' c'])
  then show "calculateTrendingScore parse' now' p' days
      = calculateTrendingScore parse now p days"
    by (rule sym)
qed

lemma createdAt_example_prompt_next_day:
  "iso_date_parse (createdAt example_prompt_next_day) = Some msPerDay"
  by (simp add: example_prompt_next_day_def iso_date_parse_def calendar_day_def is_digit_def
      digit_val_def days_in_month_def day_number_def days_before_year_def
      days_before_month_def less_eq_char_def)

theorem C1_clock_dependence_witness:
  "map (\<lambda>g. (badgeId g, badge_type g))
       (checkEligibility 1000 example_stats ([] :: UserBadge list))
     = [(''first-steps'', ''submission''), (''getting-started'', ''submission'')]
   \<and> map (\<lambda>g. (badgeId g, badge_type g))
       (checkEligibility 2000 example_stats ([] :: UserBadge list))
     = [(''first-steps'', ''submission''), (''getting-started'', ''submission'')]
   \<and> iso_date_parse (createdAt example_prompt) = Some 0
   \<and> iso_date_parse (createdAt example_prompt_next_day) = Some msPerDay
   \<and> prompt_score example_prompt_next_day = prompt_score example_prompt
   \<and> prompt_usageCount example_prompt_next_day = prompt_usageCount example_prompt
   \<and> prompt_averageRating example_prompt_next_day = prompt_averageRating example_prompt
   \<and> 2 * msPerDay - msPerDay = 1 * msPerDay - 0
   \<and> calculateTrendingScore iso_date_parse (1 * msPerDay) example_prompt 10 = Num 9
   \<and> calculateTrendingScore iso_date_parse (2 * msPerDay) example_prompt_next_day 10 = Num 9"
  using C1_clock_dependence
    [where now = "1 * msPerDay" and now' = "2 * msPerDay" and stats = example_stats
       and held = "[] :: UserBadge list" and parse = iso_date_parse and p = example_prompt
       and c = 0 and parse' = iso_date_parse and p' = example_prompt_next_day
       and c' = msPerDay and days = 10]
    C1_clock_dependence
    [where now = 1000 and now' = 2000 and stats = example_stats
       and held = "[] :: UserBadge list"]
  by (simp add: checkEligibility_example createdAt_example_prompt
      createdAt_example_prompt_next_day trending_at_1_day [simplified])
     (simp add: example_prompt_next_day_def example_prompt_def)

text \<open>
  Two calls of \<open>checkEligibility\<close> with equal arguments at different readings of the
  clock return different grants, and two such calls of \<open>generateTrendingLeaderboard\<close>
  return different trending scores.
\<close>

theorem C1_purity_counterexample:
  "checkEligibility 1000 example_stats ([] :: UserBadge list)
     = [\<lparr>badgeId = ''first-steps'', badge_type = ''submission'', earnedAt = 1000\<rparr>,
        \<lparr>badgeId = ''getting-started'', badge_type = ''submission'', earnedAt = 1000\<rparr>]
   \<and> checkEligibility 2000 example_stats ([] :: UserBadge list)
     = [\<lparr>badgeId = ''first-steps'', badge_type = ''submission'', earnedAt = 2000\<rparr>,
        \<lparr>badgeId = ''getting-started'', badge_type = ''submission'', earnedAt = 2000\<rparr>]
   \<and> map trendingScore
         (generateTrendingLeaderboard iso_date_parse (1 * msPerDay) [example_prompt] 10 5)
       = [Num 9]
   \<and> map trendingScore
         (generateTrendingLeaderboard iso_date_parse (2 * msPerDay) [example_prompt] 10 5)
       = [Num 8]
   \<and> generateTrendingLeaderboard iso_date_parse (1 * msPerDay) [example_prompt] 10 5
     \<noteq> generateTrendingLeaderboard iso_date_parse (2 * msPerDay) [example_prompt] 10 5"
proof -
  have f: "status example_prompt = ''active''" "isPublic example_prompt"
    by (simp_all add: example_prompt_def)
  have c: "js_ge (time_value (iso_date_parse (createdAt example_prompt)))
             (Num (of_int (1 * msPerDay - 10 * msPerDay)))"
    "js_ge (time_value (iso_date_parse (createdAt example_prompt)))
             (Num (of_int (2 * msPerDay - 10 * msPerDay)))"
    by (simp_all add: createdAt_example_prompt time_value_def js_ge_def msPerDay_def)
  have t1: "map trendingScore
          (generateTrendingLeaderboard iso_date_parse (1 * msPerDay) [example_prompt] 10 5)
        = [Num 9]"
    unfolding generateTrendingLeaderboard_def Let_def
    by (simp only: filter.simps f c simp_thms if_True)
       (simp add: js_sort_def slice0_def map_indexed_def trending_at_1_day [simplified])
  have t2: "map trendingScore
          (generateTrendingLeaderboard iso_date_parse (2 * msPerDay) [example_prompt] 10 5)
        = [Num 8]"
    unfolding generateTrendingLeaderboard_def Let_def
    by (simp only: filter.simps f c simp_thms if_True)
       (simp add: js_sort_def slice0_def map_indexed_def trending_at_2_days)
  from t1 t2 have "generateTrendingLeaderboard iso_date_parse (1 * msPerDay) [example_prompt] 10 5
      \<noteq> generateTrendingLeaderboard iso_date_parse (2 * msPerDay) [example_prompt] 10 5"
    by auto
  with t1 t2 show ?thesis
    by (simp only: checkEligibility_example simp_thms)
qed

subsection \<open>Negative inputs\<close>

lemma calculateScore_negative_signal: "calculateScore negative_signal = Num 0"
  by (simp add: calculateScore_def totalScore_def calculateRatingScore_def
      calculateUsageScore_def calculateRecencyScore_def calculateEngagementScore_def
      negative_signal_def round_half_up_def
      weights_rating_def weights_usage_def weights_recency_def weights_engagement_def
      maxScores_rating_def maxScores_usage_def maxScores_recency_def maxScores_engagement_def)

lemma calculateScore_unfavoured_signal: "calculateScore unfavoured_signal = Num 53"
  by (simp add: calculateScore_def totalScore_def calculateRatingScore_def
      calculateUsageScore_def calculateRecencyScore_def calculateEngagementScore_def
      getConfidenceMultiplier_def unfavoured_signal_def round_half_up_def
      weights_rating_def weights_usage_def weights_recency_def weights_engagement_def
      maxScores_rating_def maxScores_usage_def maxScores_recency_def maxScores_engagement_def)

text \<open>A granted badge is an entry of the registry whose check holds.\<close>

lemma granted_entry:
  assumes "g \<in> set (checkEligibility now stats held)"
  obtains e where "e \<in> set badgeCriteria" "check (snd e) stats"
    "badge_type g = criteria_type (snd e)"
  using assms by (auto simp: checkEligibility_filter grant_of_def grantable_def)

lemma checks_need_counters:
  "\<forall>e \<in> set badgeCriteria. check (snd e) stats \<longrightarrow>
     (criteria_type (snd e) = ''submission'' \<longrightarrow> 1 \<le> totalPrompts stats)
     \<and> (criteria_type (snd e) = ''usage'' \<longrightarrow> 100 \<le> totalUsage stats)
     \<and> (criteria_type (snd e) = ''score'' \<longrightarrow> 5 \<le> totalRatings stats)
     \<and> (criteria_type (snd e) = ''streak'' \<longrightarrow> 7 \<le> longestStreak stats)
     \<and> (criteria_type (snd e) = ''special'' \<longrightarrow>
            1 \<le> featuredPrompts stats \<or> 3 \<le> topRankedPrompts stats)"
  by (simp add: badgeCriteria_def)

text \<open>
  Claim C3, amended. For a signal whose usage count is not negative and whose fields are
  at most \<open>2^53\<close> in magnitude, whatever the sign of the other fields, \<open>calculateScore\<close>
  returns an integer score in \<open>[0, 200]\<close>, not an error. For a snapshot with a negative
  counter, \<open>checkEligibility\<close> returns a list of grants, not an error, and the list holds
  no badge of the type of that counter.
\<close>

theorem C3_negative_fields:
  "(safe_fields p \<and> 0 \<le> usageCount p \<longrightarrow>
      (\<exists>s::int. calculateScore p = Num (of_int s) \<and> 0 \<le> s \<and> s \<le> 200))
   \<and> (totalPrompts stats < 0 \<longrightarrow>
        ''submission'' \<notin> set (map badge_type (checkEligibility now stats held)))
   \<and> (totalUsage stats < 0 \<longrightarrow>
        ''usage'' \<notin> set (map badge_type (checkEligibility now stats held)))
   \<and> (totalRatings stats < 0 \<longrightarrow>
        ''score'' \<notin> set (map badge_type (checkEligibility now stats held)))
   \<and> (longestStreak stats < 0 \<longrightarrow>
        ''streak'' \<notin> set (map badge_type (checkEligibility now stats held)))
   \<and> (featuredPrompts stats < 0 \<and> topRankedPrompts stats < 0 \<longrightarrow>
        ''special'' \<notin> set (map badge_type (checkEligibility now stats held)))"
proof -
  have score: "\<exists>s::int. calculateScore p = Num (of_int s) \<and> 0 \<le> s \<and> s \<le> 200"
    if "0 \<le> usageCount p"
  proof -
    from that have "- 1 < usageCount p" by simp
    from totalScore_Num [OF this] obtain t :: int where "totalScore p = Num (of_int t)"
      by blast
    then have "calculateScore p = Num (of_int (max 0 (min 200 t)))"
      by (rule calculateScore_Num)
    then show ?thesis by (intro exI [of _ "max 0 (min 200 t)"]) simp
  qed
  have badge: False
    if ty: "ty \<in> set (map badge_type (checkEligibility now stats held))"
      and no: "\<And>e. e \<in> set badgeCriteria \<Longrightarrow> check (snd e) stats \<Longrightarrow>
                 criteria_type (snd e) \<noteq> ty"
    for ty
  proof -
    from ty obtain g where g: "g \<in> set (checkEligibility now stats held)" "badge_type g = ty"
      by auto
    from g(1) obtain e where "e \<in> set badgeCriteria" "check (snd e) stats"
      "badge_type g = criteria_type (snd e)"
      by (rule granted_entry)
    with no [of e] g(2) show False by simp
  qed
  show ?thesis
  proof (intro conjI impI notI)
    assume "safe_fields p \<and> 0 \<le> usageCount p"
    then show "\<exists>s::int. calculateScore p = Num (of_int s) \<and> 0 \<le> s \<and> s \<le> 200"
      by (intro score) simp
  next
    assume "totalPrompts stats < 0"
      and "''submission'' \<in> set (map badge_type (checkEligibility now stats held))"
    then show False
      using checks_need_counters [of stats] by (elim badge) fastforce
  next
    assume "totalUsage stats < 0"
      and "''usage'' \<in> set (map badge_type (checkEligibility now stats held))"
    then show False
      using checks_need_counters [of stats] by (elim badge) fastforce
  next
    assume "totalRatings stats < 0"
      and "''score'' \<in> set (map badge_type (checkEligibility now stats held))"
    then show False
      using checks_need_counters [of stats] by (elim badge) fastforce
  next
    assume "longestStreak stats < 0"
      and "''streak'' \<in> set (map badge_type (checkEligibility now stats held))"
    then show False
      using checks_need_counters [of stats] by (elim badge) fastforce
  next
    assume "featuredPrompts stats < 0 \<and> topRankedPrompts stats < 0"
      and "''special'' \<in> set (map badge_type (checkEligibility now stats held))"
    then show False
      using checks_need_counters [of stats] by (elim badge) fastforce
  qed
qed

lemma checkEligibility_no_prompts_stats:
  "checkEligibility now no_prompts_stats ([] :: UserBadge list) =
     [\<lparr>badgeId = ''popular-choice'', badge_type = ''usage'', earnedAt = now\<rparr>]"
  by (simp add: checkEligibility_def badgeCriteria_def no_prompts_stats_def)

lemma checkEligibility_negative_stats:
  "checkEligibility now negative_stats ([] :: UserBadge list) = []"
  by (simp add: checkEligibility_def badgeCriteria_def negative_stats_def)

theorem C3_negative_fields_witness:
  "safe_fields unfavoured_signal \<and> 0 \<le> usageCount unfavoured_signal
   \<and> favoriteCount unfavoured_signal < 0
   \<and> calculateScore unfavoured_signal = Num 53
   \<and> (\<exists>s::int. calculateScore unfavoured_signal = Num (of_int s) \<and> 0 \<le> s \<and> s \<le> 200)
   \<and> totalPrompts no_prompts_stats < 0
   \<and> map badge_type (checkEligibility 0 no_prompts_stats ([] :: UserBadge list)) = [''usage'']
   \<and> ''submission''
         \<notin> set (map badge_type (checkEligibility 0 no_prompts_stats ([] :: UserBadge list)))
   \<and> totalUsage negative_stats < 0 \<and> totalRatings negative_stats < 0
   \<and> longestStreak negative_stats < 0 \<and> featuredPrompts negative_stats < 0
   \<and> topRankedPrompts negative_stats < 0
   \<and> checkEligibility 0 negative_stats ([] :: UserBadge list) = []"
  using C3_negative_fields [of unfavoured_signal no_prompts_stats 0 "[] :: UserBadge list"]
    C3_negative_fields [of unfavoured_signal negative_stats 0 "[] :: UserBadge list"]
  by (simp add: calculateScore_unfavoured_signal checkEligibility_no_prompts_stats
      checkEligibility_negative_stats)
     (simp add: unfavoured_signal_def no_prompts_stats_def negative_stats_def safe_fields_def
        safe_magnitude_def)

text \<open>
  On a signal with the favorite count \<open>-1\<close> \<open>calculateScore\<close> returns the score 0, and
  on a snapshot whose counters are all \<open>-1\<close> \<open>checkEligibility\<close> returns the empty list
  of grants: a numeric score and a grant result, where the claim has an error.
\<close>

theorem C3_invalid_input_counterexample:
  "favoriteCount negative_signal < 0
   \<and> calculateScore negative_signal = Num 0
   \<and> totalPrompts negative_stats < 0
   \<and> checkEligibility 0 negative_stats ([] :: UserBadge list) = []"
  by (simp add: calculateScore_negative_signal checkEligibility_negative_stats)
     (simp add: negative_signal_def negative_stats_def)

subsection \<open>Longest streak\<close>

subsubsection \<open>Day numbers grow with the calendar\<close>

lemma days_before_month_Suc:
  "1 \<le> m \<Longrightarrow> days_before_month y (m + 1) = days_before_month y m + days_in_month y m"
proof -
  assume m: "1 \<le> m"
  then have "nat (m + 1) = Suc (nat m)" by simp
  moreover have "1 \<le> nat m" using m by simp
  ultimately show ?thesis
    using m by (simp add: days_before_month_def)
qed

lemma days_in_month_pos: "1 \<le> days_in_month y m"
  by (simp add: days_in_month_def)

lemma ceil_div_step:
  fixes y k :: int
  assumes "0 < k"
  shows "(y + 1 + (k - 1)) div k = (y + (k - 1)) div k + (if y mod k = 0 then 1 else 0)"
proof -
  define q r where "q = y div k" and "r = y mod k"
  have y: "y = r + k * q" by (simp add: q_def r_def)
  have r: "0 \<le> r" "r < k" using assms by (simp_all add: r_def)
  have k: "k \<noteq> 0" using assms by simp
  have "y + 1 + (k - 1) = r + k * (q + 1)" by (simp add: y algebra_simps)
  then have "(y + 1 + (k - 1)) div k = (r + k * (q + 1)) div k" by (simp only:)
  also have "\<dots> = (q + 1) + r div k" using k by (rule div_mult_self2)
  also have "r div k = 0" using r by (rule div_pos_pos_trivial)
  finally have a: "(y + 1 + (k - 1)) div k = q + 1" by simp
  have "y + (k - 1) = (r + (k - 1)) + k * q" by (simp add: y)
  then have "(y + (k - 1)) div k = ((r + (k - 1)) + k * q) div k" by (simp only:)
  also have "\<dots> = q + (r + (k - 1)) div k" using k by (rule div_mult_self2)
  finally have b: "(y + (k - 1)) div k = q + (r + (k - 1)) div k" .
  have c: "(r + (k - 1)) div k = (if r = 0 then 0 else 1)"
  proof (cases "r = 0")
    case True
    have "(k - 1) div k = 0" using assms by (intro div_pos_pos_trivial) simp_all
    with True show ?thesis by simp
  next
    case False
    have "r + (k - 1) = (r - 1) + k * 1" by simp
    then have "(r + (k - 1)) div k = ((r - 1) + k * 1) div k" by (simp only:)
    also have "\<dots> = 1 + (r - 1) div k" using k by (rule div_mult_self2)
    also have "(r - 1) div k = 0" using r False by (intro div_pos_pos_trivial) simp_all
    finally show ?thesis using False by simp
  qed
  show ?thesis unfolding a b c by (simp add: r_def)
qed

lemma days_before_year_Suc:
  "days_before_year (y + 1) = days_before_year y + (if is_leap y then 366 else 365)"
proof -
  have d4: "(y + 1 + 3) div 4 = (y + 3) div 4 + (if y mod 4 = 0 then 1 else 0)"
    using ceil_div_step [of 4 y] by simp
  have d100: "(y + 1 + 99) div 100 = (y + 99) div 100 + (if y mod 100 = 0 then 1 else 0)"
    using ceil_div_step [of 100 y] by simp
  have d400: "(y + 1 + 399) div 400 = (y + 399) div 400 + (if y mod 400 = 0 then 1 else 0)"
    using ceil_div_step [of 400 y] by simp
  have m1: "y mod 4 = 0" if "y mod 100 = 0"
  proof -
    from that have "100 dvd y" by (simp add: mod_eq_0_iff_dvd)
    moreover have "(4::int) dvd 100" by simp
    ultimately have "4 dvd y" by (rule dvd_trans [rotated])
    then show ?thesis by (simp add: mod_eq_0_iff_dvd)
  qed
  have m2: "y mod 100 = 0" if "y mod 400 = 0"
  proof -
    from that have "400 dvd y" by (simp add: mod_eq_0_iff_dvd)
    moreover have "(100::int) dvd 400" by simp
    ultimately have "100 dvd y" by (rule dvd_trans [rotated])
    then show ?thesis by (simp add: mod_eq_0_iff_dvd)
  qed
  show ?thesis
    unfolding days_before_year_def is_leap_def d4 d100 d400
    using m1 m2 by auto
qed

lemma days_before_year_mono:
  assumes "y \<le> y'"
  shows "days_before_year y \<le> days_before_year y'"
proof -
  have "days_before_year y \<le> days_before_year (y + int k)" for k
  proof (induction k)
    case 0
    show ?case by simp
  next
    case (Suc k)
    have e: "y + int (Suc k) = y + int k + 1" by simp
    have "days_before_year (y + int k) \<le> days_before_year (y + int k + 1)"
      by (simp only: days_before_year_Suc split: if_splits) simp
    with Suc show ?case unfolding e by linarith
  qed
  from this [of "nat (y' - y)"] assms show ?thesis by simp
qed

lemma days_before_month_mono:
  assumes "1 \<le> m" and "m \<le> m'"
  shows "days_before_month y m \<le> days_before_month y m'"
proof -
  have "days_before_month y m \<le> days_before_month y (m + int k)" for k
  proof (induction k)
    case 0
    show ?case by simp
  next
    case (Suc k)
    have e: "m + int (Suc k) = m + int k + 1" by simp
    have "days_before_month y (m + int k + 1)
            = days_before_month y (m + int k) + days_in_month y (m + int k)"
      using assms(1) by (intro days_before_month_Suc) simp
    with Suc days_in_month_pos [of y "m + int k"] show ?case
      unfolding e by linarith
  qed
  from this [of "nat (m' - m)"] assms(2) show ?thesis by simp
qed


lemma months_of_year: "[Suc 0 ..< 13] = [1, 2, 3, 4, 5, 6, 7, 8, 9, 10, 11, 12]"
  by code_simp

lemma days_before_month_13: "days_before_month y 13 = (if is_leap y then 366 else 365)"
  by (simp add: days_before_month_def days_in_month_def months_of_year)

text \<open>The last day of a month lies within the year.\<close>

lemma day_within_year:
  assumes "1 \<le> m" and "m \<le> 12" and "d \<le> days_in_month y m"
  shows "days_before_month y m + d \<le> (if is_leap y then 366 else 365)"
proof -
  have "days_before_month y m + d \<le> days_before_month y (m + 1)"
    using assms(1,3) by (simp add: days_before_month_Suc)
  also have "\<dots> \<le> days_before_month y 13"
    using assms(1,2) by (intro days_before_month_mono) simp_all
  finally show ?thesis by (simp only: days_before_month_13)
qed

lemma day_number_mono:
  assumes "valid_date y m d" and "valid_date y' m' d'"
    and "y < y' \<or> (y = y' \<and> (m < m' \<or> (m = m' \<and> d \<le> d')))"
  shows "day_number y m d \<le> day_number y' m' d'"
proof -
  from assms(1) have v: "1 \<le> m" "m \<le> 12" "1 \<le> d" "d \<le> days_in_month y m"
    by (simp_all add: valid_date_def)
  from assms(2) have v': "1 \<le> m'" "m' \<le> 12" "1 \<le> d'" "d' \<le> days_in_month y' m'"
    by (simp_all add: valid_date_def)
  consider (year) "y < y'" | (month) "y = y'" "m < m'" | (day) "y = y'" "m = m'" "d \<le> d'"
    using assms(3) by blast
  then show ?thesis
  proof cases
    case year
    have "days_before_year y + days_before_month y m + d
            \<le> days_before_year y + (if is_leap y then 366 else 365)"
      using day_within_year [OF v(1,2,4)] by simp
    also have "\<dots> = days_before_year (y + 1)" by (simp only: days_before_year_Suc)
    also have "\<dots> \<le> days_before_year y'" using year by (intro days_before_year_mono) simp
    also have "\<dots> \<le> days_before_year y' + days_before_month y' m'"
      using days_before_month_mono [of 1 m' y'] v'(1)
      by (simp add: days_before_month_def)
    finally show ?thesis using v'(3) by (simp add: day_number_def)
  next
    case month
    have "days_before_month y m + d \<le> days_before_month y (m + 1)"
      using v(1,4) by (simp add: days_before_month_Suc)
    also have "\<dots> \<le> days_before_month y m'"
      using month(2) v(1) by (intro days_before_month_mono) simp_all
    finally show ?thesis using v'(3) month(1) by (simp add: day_number_def)
  next
    case day
    then show ?thesis by (simp add: day_number_def)
  qed
qed



subsubsection \<open>The order of the strings is the order of the dates\<close>

lemma digit_val_bounds: "is_digit c \<Longrightarrow> 0 \<le> digit_val c \<and> digit_val c \<le> 9"
  by (simp add: is_digit_def digit_val_def less_eq_char_def)

lemma digit_val_less: "c < c' \<longleftrightarrow> digit_val c < digit_val c'"
  by (simp add: digit_val_def less_char_def)

lemma digit_val_eq: "c = c' \<longleftrightarrow> digit_val c = digit_val c'"
  by (simp add: digit_val_def)

lemma date_fields_Some:
  assumes "date_fields s = Some (y, m, d)"
  obtains y1 y2 y3 y4 m1 m2 d1 d2 where
    "s = [y1, y2, y3, y4, CHR ''-'', m1, m2, CHR ''-'', d1, d2]"
    "is_digit y1" "is_digit y2" "is_digit y3" "is_digit y4"
    "is_digit m1" "is_digit m2" "is_digit d1" "is_digit d2"
    "y = 1000 * digit_val y1 + 100 * digit_val y2 + 10 * digit_val y3 + digit_val y4"
    "m = 10 * digit_val m1 + digit_val m2"
    "d = 10 * digit_val d1 + digit_val d2"
  using assms by (rule date_fields.elims) (auto split: if_splits)

lemma lex_digits:
  fixes a1 a2 a3 a4 a5 a6 a7 a8 b1 b2 b3 b4 b5 b6 b7 b8 :: int
  assumes "0 \<le> a2 \<and> a2 \<le> 9" "0 \<le> a3 \<and> a3 \<le> 9" "0 \<le> a4 \<and> a4 \<le> 9"
    "0 \<le> a6 \<and> a6 \<le> 9" "0 \<le> a8 \<and> a8 \<le> 9"
    "0 \<le> b2 \<and> b2 \<le> 9" "0 \<le> b3 \<and> b3 \<le> 9" "0 \<le> b4 \<and> b4 \<le> 9"
    "0 \<le> b6 \<and> b6 \<le> 9" "0 \<le> b8 \<and> b8 \<le> 9"
    and "a1 < b1 \<or> a1 = b1 \<and> (a2 < b2 \<or> a2 = b2 \<and> (a3 < b3 \<or> a3 = b3 \<and>
           (a4 < b4 \<or> a4 = b4 \<and> (a5 < b5 \<or> a5 = b5 \<and> (a6 < b6 \<or> a6 = b6 \<and>
           (a7 < b7 \<or> a7 = b7 \<and> (a8 < b8 \<or> a8 = b8)))))))"
  shows "1000 * a1 + 100 * a2 + 10 * a3 + a4 < 1000 * b1 + 100 * b2 + 10 * b3 + b4
         \<or> (1000 * a1 + 100 * a2 + 10 * a3 + a4 = 1000 * b1 + 100 * b2 + 10 * b3 + b4
            \<and> (10 * a5 + a6 < 10 * b5 + b6
               \<or> (10 * a5 + a6 = 10 * b5 + b6 \<and> 10 * a7 + a8 \<le> 10 * b7 + b8)))"
  using assms by auto


lemma date_fields_le:
  assumes "date_fields s = Some (y, m, d)" and "date_fields t = Some (y', m', d')"
    and "s \<le> t"
  shows "y < y' \<or> (y = y' \<and> (m < m' \<or> (m = m' \<and> d \<le> d')))"
proof -
  from assms(1) obtain a1 a2 a3 a4 a5 a6 a7 a8 where
    s: "s = [a1, a2, a3, a4, CHR ''-'', a5, a6, CHR ''-'', a7, a8]"
    and sd: "is_digit a2" "is_digit a3" "is_digit a4" "is_digit a6" "is_digit a8"
    and sv: "y = 1000 * digit_val a1 + 100 * digit_val a2 + 10 * digit_val a3 + digit_val a4"
      "m = 10 * digit_val a5 + digit_val a6" "d = 10 * digit_val a7 + digit_val a8"
    by (rule date_fields_Some)
  from assms(2) obtain b1 b2 b3 b4 b5 b6 b7 b8 where
    t: "t = [b1, b2, b3, b4, CHR ''-'', b5, b6, CHR ''-'', b7, b8]"
    and td: "is_digit b2" "is_digit b3" "is_digit b4" "is_digit b6" "is_digit b8"
    and tv: "y' = 1000 * digit_val b1 + 100 * digit_val b2 + 10 * digit_val b3 + digit_val b4"
      "m' = 10 * digit_val b5 + digit_val b6" "d' = 10 * digit_val b7 + digit_val b8"
    by (rule date_fields_Some)
  from assms(3) have
    "digit_val a1 < digit_val b1 \<or> digit_val a1 = digit_val b1 \<and>
      (digit_val a2 < digit_val b2 \<or> digit_val a2 = digit_val b2 \<and>
      (digit_val a3 < digit_val b3 \<or> digit_val a3 = digit_val b3 \<and>
      (digit_val a4 < digit_val b4 \<or> digit_val a4 = digit_val b4 \<and>
      (digit_val a5 < digit_val b5 \<or> digit_val a5 = digit_val b5 \<and>
      (digit_val a6 < digit_val b6 \<or> digit_val a6 = digit_val b6 \<and>
      (digit_val a7 < digit_val b7 \<or> digit_val a7 = digit_val b7 \<and>
      (digit_val a8 < digit_val b8 \<or> digit_val a8 = digit_val b8)))))))"
    unfolding s t by (simp add: digit_val_less [symmetric] digit_val_eq [symmetric])
  then show ?thesis
    unfolding sv tv
    by (intro lex_digits digit_val_bounds sd td)
qed

lemma calendar_day_mono:
  assumes "calendar_day s = Some a" and "calendar_day t = Some b" and "s \<le> t"
  shows "a \<le> b"
proof -
  from assms(1) obtain y m d where
    s: "date_fields s = Some (y, m, d)" "valid_date y m d" "a = day_number y m d"
    by (auto simp: calendar_day_def valid_date_def split: option.splits if_splits)
  from assms(2) obtain y' m' d' where
    t: "date_fields t = Some (y', m', d')" "valid_date y' m' d'" "b = day_number y' m' d'"
    by (auto simp: calendar_day_def valid_date_def split: option.splits if_splits)
  from date_fields_le [OF s(1) t(1) assms(3)] s(2) t(2) show ?thesis
    unfolding s(3) t(3) by (intro day_number_mono)
qed

lemma sort_map_day_of:
  assumes "\<forall>s \<in> set dates. calendar_day s \<noteq> None"
  shows "sort (map day_of dates) = map day_of (sort dates)"
proof (rule properties_for_sort)
  show "mset (map day_of (sort dates)) = mset (map day_of dates)" by simp
next
  have "sorted_wrt (\<lambda>s t. day_of s \<le> day_of t) (sort dates)"
  proof (rule sorted_wrt_mono_rel [of _ "(\<le>)"])
    fix s t
    assume "s \<in> set (sort dates)" "t \<in> set (sort dates)" "s \<le> t"
    with assms have "calendar_day s \<noteq> None" "calendar_day t \<noteq> None" by simp_all
    then obtain a b where "calendar_day s = Some a" "calendar_day t = Some b"
      by blast
    with \<open>s \<le> t\<close> show "day_of s \<le> day_of t"
      by (simp add: day_of_def calendar_day_mono)
  next
    show "sorted_wrt (\<le>) (sort dates)" by simp
  qed
  then show "sorted (map day_of (sort dates))"
    by (simp add: sorted_wrt_map)
qed

subsubsection \<open>The loop\<close>

lemma dayDiff_valid:
  "js_div (js_sub (time_value (Some (a * msPerDay))) (time_value (Some (b * msPerDay))))
          (Num (of_int msPerDay)) = Num (of_int (a - b))"
  by (simp add: time_value_def js_sub_def msPerDay_def field_simps)

lemma js_eq_Num [simp]: "js_eq (Num a) (Num b) \<longleftrightarrow> a = b"
  by (simp add: js_eq_def)

lemma js_gt_Num [simp]: "js_gt (Num a) (Num b) \<longleftrightarrow> b < a"
  by (simp add: js_gt_def)

lemma streak_loop_step:
  assumes "i < length ds" and "1 \<le> i"
    and "parse (ds ! (i - 1)) = Some (a * msPerDay)" and "parse (ds ! i) = Some (b * msPerDay)"
  shows "streak_loop parse ds i l c =
     (if b - a = 1 then streak_loop parse ds (i + 1) (max l (c + 1)) (c + 1)
      else if b - a > 1 then streak_loop parse ds (i + 1) l 1
      else streak_loop parse ds (i + 1) l c)"
proof -
  have "of_int (b - a) = (1::real) \<longleftrightarrow> b - a = 1"
    by (metis of_int_eq_1_iff)
  moreover have "(1::real) < of_int (b - a) \<longleftrightarrow> 1 < b - a"
    by (metis of_int_1_less_iff)
  ultimately show ?thesis
    using assms
    by (subst streak_loop.simps) (simp only: dayDiff_valid Let_def js_eq_Num js_gt_Num if_True)
qed

lemma streak_loop_done: "\<not> i < length ds \<Longrightarrow> streak_loop parse ds i l c = l"
  by (subst streak_loop.simps) simp

lemma streak_loop_spec:
  assumes "\<forall>s \<in> set ds. parse s = Some (day_of s * msPerDay)"
    and "1 \<le> i" and "i \<le> length ds" and "1 \<le> c" and "c \<le> l"
  shows "streak_loop parse ds i l c
           = spec_scan (day_of (ds ! (i - 1))) (map day_of (drop i ds)) c l"
  using assms(2-)
proof (induction "length ds - i" arbitrary: i l c)
  case 0
  then have "i = length ds" by simp
  then show ?case by (simp add: streak_loop_done)
next
  case (Suc n)
  then have i: "i < length ds" by simp
  then have d: "drop i ds = ds ! i # drop (Suc i) ds"
    by (simp add: Cons_nth_drop_Suc)
  have p1: "parse (ds ! (i - 1)) = Some (day_of (ds ! (i - 1)) * msPerDay)"
    using assms(1) i by (simp add: less_imp_diff_less)
  have p2: "parse (ds ! i) = Some (day_of (ds ! i) * msPerDay)"
    using assms(1) i by simp
  have n: "n = length ds - Suc i" using Suc.hyps(2) by simp
  have ih: "streak_loop parse ds (Suc i) l' c'
           = spec_scan (day_of (ds ! i)) (map day_of (drop (Suc i) ds)) c' l'"
    if "1 \<le> c'" "c' \<le> l'" for l' c'
    using Suc.hyps(1) [OF n, of c' l'] i that by simp
  show ?case
    using Suc.prems
    by (simp add: streak_loop_step [OF i Suc.prems(1) p1 p2] d ih Let_def max_def)
qed


lemma calculateLongestStreak_spec:
  assumes "\<forall>s \<in> set dates. calendar_day s \<noteq> None \<and> parse s = iso_date_parse s"
  shows "calculateLongestStreak parse dates = spec_longest_streak (map day_of dates)"
proof (cases "dates = []")
  case True
  then show ?thesis by (simp add: calculateLongestStreak_def spec_longest_streak_def)
next
  case False
  then obtain x xs where xs: "sort dates = x # xs"
    by (metis list.exhaust set_empty2 set_sort)
  have v: "\<forall>s \<in> set (sort dates). parse s = Some (day_of s * msPerDay)"
    using assms by (auto simp: iso_date_parse_def day_of_def)
  have "sort (map day_of dates) = map day_of (sort dates)"
    using assms by (intro sort_map_day_of) simp
  then have "spec_longest_streak (map day_of dates) = spec_scan (day_of x) (map day_of xs) 1 1"
    by (simp add: spec_longest_streak_def xs)
  moreover have "streak_loop parse (sort dates) 1 1 1
      = spec_scan (day_of (sort dates ! (1 - 1))) (map day_of (drop 1 (sort dates))) 1 1"
    using v by (rule streak_loop_spec) (simp_all add: xs)
  ultimately show ?thesis
    using False by (simp add: calculateLongestStreak_def xs)
qed

lemma calendar_day_examples:
  "calendar_day ''2024-01-01'' = Some 19723"
  "calendar_day ''2024-01-02'' = Some 19724"
  "calendar_day ''2024-01-03'' = Some 19725"
  "calendar_day ''2024-01-05'' = Some 19727"
  by (simp_all add: calendar_day_def is_digit_def digit_val_def
      days_in_month_def day_number_def days_before_year_def days_before_month_def
      less_eq_char_def)

text \<open>
  Claim C6. On every list of calendar-day strings, parsed as ECMAScript prescribes,
  \<open>calculateLongestStreak\<close> equals the reference algorithm of the specification on the
  day numbers; it returns 0 on the empty list, 3 on three consecutive days and 1 on two
  days four days apart.
\<close>

theorem C6_longest_streak:
  "((\<forall>s \<in> set dates. calendar_day s \<noteq> None \<and> parse s = iso_date_parse s) \<longrightarrow>
      calculateLongestStreak parse dates = spec_longest_streak (map day_of dates))
   \<and> calculateLongestStreak parse [] = 0
   \<and> calculateLongestStreak iso_date_parse [''2024-01-01'', ''2024-01-02'', ''2024-01-03''] = 3
   \<and> calculateLongestStreak iso_date_parse [''2024-01-01'', ''2024-01-05''] = 1"
proof (intro conjI impI)
  assume "\<forall>s \<in> set dates. calendar_day s \<noteq> None \<and> parse s = iso_date_parse s"
  then show "calculateLongestStreak parse dates = spec_longest_streak (map day_of dates)"
    by (rule calculateLongestStreak_spec)
next
  show "calculateLongestStreak parse [] = 0" by (simp add: calculateLongestStreak_def)
next
  have "calculateLongestStreak iso_date_parse [''2024-01-01'', ''2024-01-02'', ''2024-01-03'']
          = spec_longest_streak (map day_of [''2024-01-01'', ''2024-01-02'', ''2024-01-03''])"
    by (rule calculateLongestStreak_spec) (simp add: calendar_day_examples)
  then show "calculateLongestStreak iso_date_parse
               [''2024-01-01'', ''2024-01-02'', ''2024-01-03''] = 3"
    by (simp add: spec_longest_streak_def day_of_def calendar_day_examples)
next
  have "calculateLongestStreak iso_date_parse [''2024-01-01'', ''2024-01-05'']
          = spec_longest_streak (map day_of [''2024-01-01'', ''2024-01-05''])"
    by (rule calculateLongestStreak_spec) (simp add: calendar_day_examples)
  then show "calculateLongestStreak iso_date_parse [''2024-01-01'', ''2024-01-05''] = 1"
    by (simp add: spec_longest_streak_def day_of_def calendar_day_examples)
qed

theorem C6_longest_streak_witness:
  "calendar_day ''2024-01-03'' \<noteq> None \<and> calendar_day ''2024-01-01'' \<noteq> None
   \<and> calendar_day ''2024-01-02'' \<noteq> None
   \<and> map day_of [''2024-01-03'', ''2024-01-01'', ''2024-01-02'', ''2024-01-02'', ''2024-01-05'']
       = [19725, 19723, 19724, 19724, 19727]
   \<and> calculateLongestStreak iso_date_parse
        [''2024-01-03'', ''2024-01-01'', ''2024-01-02'', ''2024-01-02'', ''2024-01-05''] = 3"
  using C6_longest_streak
    [of "[''2024-01-03'', ''2024-01-01'', ''2024-01-02'', ''2024-01-02'', ''2024-01-05'']"
        iso_date_parse]
  by (simp add: spec_longest_streak_def day_of_def calendar_day_examples)

end
